theory Spec2Isabelle
  imports Main "HOL-Library.Word"
begin


section \<open>Values exchanged between the coordinator and its workers\<close>

text \<open>
  The development embeds \<^verbatim>\<open>src/OPFSQuery.js\<close>: the script run by every web worker
  (\<^verbatim>\<open>workerContent\<close>), the worker pool (\<^verbatim>\<open>startWorker\<close>, \<^verbatim>\<open>completeWork\<close>,
  \<^verbatim>\<open>clearIdleWorkers\<close>), the response table (\<^verbatim>\<open>workerResponseHandler\<close>,
  \<^verbatim>\<open>handleWorkerResponse\<close>) and the four methods of \<^verbatim>\<open>OPFSQuery\<close> that use them.

  JavaScript numbers are modelled at their integer values only, byte buffers as lists of
  8-bit words, and the dynamically typed option fields as values of \<open>jsv\<close> (the
  primitive values and buffers) where the code inspects their type or truthiness.
\<close>

type_synonym byte = "8 word"
type_synonym bytes = "byte list"

datatype jsv = JUndefined | JNull | JNum int | JStr string | JBool bool | JBuffer bytes

text \<open>JavaScript truthiness, as used by \<^verbatim>\<open>if (option.flush)\<close>.\<close>

fun truthy :: "jsv \<Rightarrow> bool" where
  "truthy JUndefined = False"
| "truthy JNull = False"
| "truthy (JNum n) = (n \<noteq> 0)"
| "truthy (JStr s) = (s \<noteq> [])"
| "truthy (JBool b) = b"
| "truthy (JBuffer b) = True"

text \<open>
  A string-valued message field: \<open>None\<close> is \<^verbatim>\<open>undefined\<close>. \<^verbatim>\<open>!x\<close> holds for
  \<^verbatim>\<open>undefined\<close> and for the empty string.
\<close>

fun falsy_str :: "string option \<Rightarrow> bool" where
  "falsy_str None = True"
| "falsy_str (Some s) = (s = [])"

text \<open>
  The \<^verbatim>\<open>option\<close> object of a command. \<open>opt_at\<close> is carried at its schema type (an
  optional integer); \<open>opt_size\<close> and \<open>opt_flush\<close> are dynamically typed because the
  worker tests \<^verbatim>\<open>typeof option.size\<close> and the truthiness of \<^verbatim>\<open>option.flush\<close>.
\<close>

record ioption =
  opt_at :: "int option"
  opt_size :: jsv
  opt_flush :: jsv

definition empty_option :: ioption where
  "empty_option = \<lparr>opt_at = None, opt_size = JUndefined, opt_flush = JUndefined\<rparr>"

text \<open>The message posted to a worker: \<^verbatim>\<open>{ id, command, data, option, fileHandle }\<close>.\<close>

record command_msg =
  m_id :: "string option"
  m_command :: "string option"
  m_data :: "bytes option"
  m_option :: "ioption option"
  m_fileHandle :: "string option"

text \<open>
  Errors. \<open>Error\<close> carries the message of \<^verbatim>\<open>new Error(...)\<close>; \<open>DOMException\<close>
  stands for a fault raised by the platform inside the named method of the file handle.
\<close>

datatype hop = OpCreate | OpGetSize | OpRead | OpTruncate | OpFlush | OpWrite

datatype err = Error string | RangeError | TypeError | DOMException hop | NotFoundError

datatype resval = RNum int | RBuf bytes

text \<open>
  The message a worker posts back: \<^verbatim>\<open>{ id, result, error }\<close>. For \<open>r_result\<close>,
  \<open>None\<close> is \<^verbatim>\<open>null\<close>; for \<open>r_error\<close>, \<open>None\<close> is \<^verbatim>\<open>undefined\<close>.
\<close>

record response =
  r_id :: "string option"
  r_result :: "resval option"
  r_error :: "err option"

section \<open>The file behind a synchronous access handle\<close>

text \<open>
  The platform's \<^verbatim>\<open>FileSystemSyncAccessHandle\<close> is not part of the repository. A file
  is its current bytes and the bytes last forced to disk. Every method may fault; the
  methods that fault during one command are given by a list \<open>env\<close>. A worker records
  what it did in a trace.
\<close>

record fstate =
  content :: bytes
  durable :: bytes

datatype wevent =
    Acquired
  | DidGetSize
  | DidRead
  | DidTruncate nat
  | DidFlush
  | DidWrite
  | Posted response
  | Closed

record wstate =
  w_file :: fstate
  accessHandle :: bool
  trace :: "wevent list"

type_synonym 'a js = "wstate \<Rightarrow> (err + 'a) \<times> wstate"

definition ok :: "'a \<Rightarrow> 'a js" where
  "ok v s = (Inr v, s)"

definition andThen :: "'a js \<Rightarrow> ('a \<Rightarrow> 'b js) \<Rightarrow> 'b js" where
  "andThen f g s = (case f s of (Inl e, s1) \<Rightarrow> (Inl e, s1) | (Inr v, s1) \<Rightarrow> g v s1)"

definition lift :: "(wstate \<Rightarrow> wstate) \<Rightarrow> unit js" where
  "lift f s = (Inr (), f s)"

definition log_event :: "wevent \<Rightarrow> wstate \<Rightarrow> wstate" where
  "log_event e s = s\<lparr>trace := trace s @ [e]\<rparr>"

definition createSyncAccessHandle :: "hop list \<Rightarrow> unit js" where
  "createSyncAccessHandle env s =
     (if OpCreate \<in> set env then (Inl (DOMException OpCreate), s)
      else (Inr (), log_event Acquired (s\<lparr>accessHandle := True\<rparr>)))"

definition ah_getSize :: "hop list \<Rightarrow> int js" where
  "ah_getSize env s =
     (if OpGetSize \<in> set env then (Inl (DOMException OpGetSize), s)
      else (Inr (int (length (content (w_file s)))), log_event DidGetSize s))"

text \<open>
  \<^verbatim>\<open>new ArrayBuffer(n)\<close>: a zero-filled buffer, or a \<^verbatim>\<open>RangeError\<close> for a negative
  length.
\<close>

definition newArrayBuffer :: "int \<Rightarrow> bytes js" where
  "newArrayBuffer n s = (if n < 0 then (Inl RangeError, s) else (Inr (replicate (nat n) 0), s))"

text \<open>
  \<^verbatim>\<open>read(buffer, { at })\<close> copies the bytes from offset \<open>at\<close> (the start of the file
  when absent) into the front of the buffer, as many as are there and fit; a negative
  offset is a \<^verbatim>\<open>TypeError\<close>. The model returns the buffer as filled.
\<close>

definition ah_read :: "hop list \<Rightarrow> bytes \<Rightarrow> ioption \<Rightarrow> bytes js" where
  "ah_read env buffer option s =
     (case opt_at option of
        Some k \<Rightarrow>
          if k < 0 then (Inl TypeError, s)
          else if OpRead \<in> set env then (Inl (DOMException OpRead), s)
          else (let got = take (length buffer) (drop (nat k) (content (w_file s)))
                in (Inr (got @ drop (length got) buffer), log_event DidRead s))
      | None \<Rightarrow>
          if OpRead \<in> set env then (Inl (DOMException OpRead), s)
          else (let got = take (length buffer) (content (w_file s))
                in (Inr (got @ drop (length got) buffer), log_event DidRead s)))"

text \<open>\<^verbatim>\<open>truncate(n)\<close> cuts the file to \<open>n\<close> bytes or pads it with zeros up to \<open>n\<close>.\<close>

definition ah_truncate :: "hop list \<Rightarrow> int \<Rightarrow> unit js" where
  "ah_truncate env n s =
     (if OpTruncate \<in> set env then (Inl (DOMException OpTruncate), s)
      else (let c = content (w_file s);
                c' = take (nat n) c @ replicate (nat n - length c) 0
            in (Inr (), log_event (DidTruncate (nat n)) (s\<lparr>w_file := (w_file s)\<lparr>content := c'\<rparr>\<rparr>))))"

definition ah_flush :: "hop list \<Rightarrow> unit js" where
  "ah_flush env s =
     (if OpFlush \<in> set env then (Inl (DOMException OpFlush), s)
      else (Inr (), log_event DidFlush (s\<lparr>w_file := (w_file s)\<lparr>durable := content (w_file s)\<rparr>\<rparr>)))"

text \<open>
  \<^verbatim>\<open>write(data, { at })\<close> stores the data at offset \<open>at\<close> (the start of the file when
  absent), padding with zeros when the offset lies past the end, and returns the number
  of bytes written.
\<close>

definition write_at :: "nat \<Rightarrow> bytes \<Rightarrow> bytes \<Rightarrow> bytes" where
  "write_at pos d c = take pos c @ replicate (pos - length c) 0 @ d @ drop (pos + length d) c"

definition ah_write :: "hop list \<Rightarrow> bytes \<Rightarrow> ioption \<Rightarrow> int js" where
  "ah_write env d option s =
     (case opt_at option of
        Some k \<Rightarrow>
          if k < 0 then (Inl TypeError, s)
          else if OpWrite \<in> set env then (Inl (DOMException OpWrite), s)
          else (Inr (int (length d)),
                log_event DidWrite (s\<lparr>w_file := (w_file s)\<lparr>content := write_at (nat k) d (content (w_file s))\<rparr>\<rparr>))
      | None \<Rightarrow>
          if OpWrite \<in> set env then (Inl (DOMException OpWrite), s)
          else (Inr (int (length d)),
                log_event DidWrite (s\<lparr>w_file := (w_file s)\<lparr>content := write_at 0 d (content (w_file s))\<rparr>\<rparr>)))"

definition ah_close :: "wstate \<Rightarrow> wstate" where
  "ah_close s = log_event Closed s"

section \<open>The worker script\<close>

text \<open>\<^verbatim>\<open>respond(result, error, transfer)\<close> posts one message; the transfer list is not modelled.\<close>

definition respond :: "string option \<Rightarrow> resval option \<Rightarrow> err option \<Rightarrow> wstate \<Rightarrow> wstate" where
  "respond i r e s = log_event (Posted \<lparr>r_id = i, r_result = r, r_error = e\<rparr>) s"

text \<open>\<^verbatim>\<open>option.at || 0\<close>.\<close>

definition at_or_0 :: "ioption \<Rightarrow> int" where
  "at_or_0 option = (case opt_at option of None \<Rightarrow> 0 | Some k \<Rightarrow> if k \<noteq> 0 then k else 0)"

text \<open>\<^verbatim>\<open>typeof option.size === "number" && option.size >= 0\<close>, giving the size when it holds.\<close>

fun valid_size :: "jsv \<Rightarrow> int option" where
  "valid_size (JNum n) = (if n \<ge> 0 then Some n else None)"
| "valid_size _ = None"

definition flush_if :: "hop list \<Rightarrow> ioption \<Rightarrow> unit js" where
  "flush_if env option = (if truthy (opt_flush option) then ah_flush env else ok ())"

definition case_getSize :: "hop list \<Rightarrow> command_msg \<Rightarrow> unit js" where
  "case_getSize env m =
     andThen (ah_getSize env) (\<lambda>n. lift (respond (m_id m) (Some (RNum n)) None))"

definition case_read :: "hop list \<Rightarrow> command_msg \<Rightarrow> ioption \<Rightarrow> unit js" where
  "case_read env m option =
     andThen (ah_getSize env) (\<lambda>fileSize.
     andThen (newArrayBuffer (fileSize - at_or_0 option)) (\<lambda>buffer.
     andThen (ah_read env buffer option) (\<lambda>buffer'.
       lift (respond (m_id m) (Some (RBuf buffer')) None))))"

definition case_truncate :: "hop list \<Rightarrow> command_msg \<Rightarrow> ioption \<Rightarrow> unit js" where
  "case_truncate env m option =
     (case valid_size (opt_size option) of
        Some n \<Rightarrow>
          andThen (ah_truncate env n) (\<lambda>_.
          andThen (flush_if env option) (\<lambda>_.
            lift (respond (m_id m) (Some (RNum n)) None)))
      | None \<Rightarrow> lift (respond (m_id m) (Some (RNum 0)) None))"

definition case_write :: "hop list \<Rightarrow> command_msg \<Rightarrow> ioption \<Rightarrow> unit js" where
  "case_write env m option =
     (case m_data m of
        Some d \<Rightarrow>
          andThen (ah_write env d option) (\<lambda>writeSize.
          andThen (flush_if env option) (\<lambda>_.
            lift (respond (m_id m) (Some (RNum writeSize)) None)))
      | None \<Rightarrow> lift (respond (m_id m) (Some (RNum 0)) None))"

text \<open>The \<^verbatim>\<open>switch (command)\<close>; any other command falls to \<^verbatim>\<open>default: break\<close>.\<close>

definition switch_command :: "hop list \<Rightarrow> command_msg \<Rightarrow> ioption \<Rightarrow> unit js" where
  "switch_command env m option =
     (if m_command m = Some ''getSize'' then case_getSize env m
      else if m_command m = Some ''read'' then case_read env m option
      else if m_command m = Some ''truncate'' then case_truncate env m option
      else if m_command m = Some ''write'' then case_write env m option
      else ok ())"

text \<open>The destructuring default \<^verbatim>\<open>option = {}\<close>.\<close>

definition option_of :: "command_msg \<Rightarrow> ioption" where
  "option_of m = (case m_option m of None \<Rightarrow> empty_option | Some option \<Rightarrow> option)"

definition try_block :: "hop list \<Rightarrow> command_msg \<Rightarrow> unit js" where
  "try_block env m =
     andThen (createSyncAccessHandle env) (\<lambda>_. switch_command env m (option_of m))"

definition finally_block :: "wstate \<Rightarrow> wstate" where
  "finally_block s = (if accessHandle s then ah_close s else s)"

definition missing :: "command_msg \<Rightarrow> bool" where
  "missing m = (falsy_str (m_id m) \<or> falsy_str (m_command m) \<or> m_fileHandle m = None)"

text \<open>
  \<^verbatim>\<open>self.onmessage\<close>: the worker's whole handling of one command, run on the file the
  message's handle refers to.
\<close>

definition onmessage :: "hop list \<Rightarrow> command_msg \<Rightarrow> fstate \<Rightarrow> wstate" where
  "onmessage env m f =
     (let s0 = \<lparr>w_file = f, accessHandle = False, trace = []\<rparr> in
      if missing m
      then respond (m_id m) None (Some (Error ''missing id | command | fileHandle!'')) s0
      else (case try_block env m s0 of
              (Inr _, s1) \<Rightarrow> finally_block s1
            | (Inl error, s1) \<Rightarrow> finally_block (respond (m_id m) None (Some error) s1)))"

text \<open>The responses a trace posts, in order.\<close>

fun posts :: "wevent list \<Rightarrow> response list" where
  "posts [] = []"
| "posts (Posted r # es) = r # posts es"
| "posts (_ # es) = posts es"

subsection \<open>Notions used in the statements about the worker\<close>

text \<open>The two shapes of a response: \<^verbatim>\<open>respond(null, error)\<close> and \<^verbatim>\<open>respond(result)\<close>.\<close>

definition error_response :: "command_msg \<Rightarrow> err \<Rightarrow> wevent" where
  "error_response m e = Posted \<lparr>r_id = m_id m, r_result = None, r_error = Some e\<rparr>"

definition result_response :: "command_msg \<Rightarrow> resval \<Rightarrow> wevent" where
  "result_response m v = Posted \<lparr>r_id = m_id m, r_result = Some v, r_error = None\<rparr>"

text \<open>The commands the \<^verbatim>\<open>switch\<close> has a case for.\<close>

definition known_command :: "command_msg \<Rightarrow> bool" where
  "known_command m = (m_command m = Some ''getSize'' \<or> m_command m = Some ''read''
      \<or> m_command m = Some ''truncate'' \<or> m_command m = Some ''write'')"

text \<open>The responses posted while the handle is not yet closed.\<close>

definition responses_before_close :: "wevent list \<Rightarrow> response list" where
  "responses_before_close t = posts (takeWhile (\<lambda>e. e \<noteq> Closed) t)"

text \<open>Exactly one of \<^verbatim>\<open>result\<close> and \<^verbatim>\<open>error\<close> is set.\<close>

definition one_of_result_error :: "response \<Rightarrow> bool" where
  "one_of_result_error r = ((r_result r = None) \<noteq> (r_error r = None))"

text \<open>
  What the body of the \<^verbatim>\<open>switch\<close> may add to the trace: no acquisition and no close,
  and one response exactly when it ends normally on a command it has a case for.
\<close>

definition body_shape :: "command_msg \<Rightarrow> wstate \<Rightarrow> (err + unit) \<times> wstate \<Rightarrow> bool" where
  "body_shape m s rs =
     (accessHandle (snd rs) = accessHandle s \<and>
      (\<exists>es. trace (snd rs) = trace s @ es \<and> Closed \<notin> set es \<and> Acquired \<notin> set es \<and>
        (case fst rs of
           Inl e \<Rightarrow> posts es = [] \<and> known_command m
         | Inr u \<Rightarrow> if known_command m then (\<exists>v. posts es = [\<lparr>r_id = m_id m, r_result = Some v, r_error = None\<rparr>])
                    else posts es = [])))"

subsection \<open>A file and commands to try the worker on\<close>

definition example_file :: fstate where
  "example_file = \<lparr>content = [10, 20, 30, 40, 50], durable = [10, 20, 30, 40, 50]\<rparr>"

definition example_msg :: "string \<Rightarrow> ioption option \<Rightarrow> command_msg" where
  "example_msg c option = \<lparr>m_id = Some ''/a.bin_op'', m_command = Some c, m_data = None,
      m_option = option, m_fileHandle = Some ''/a.bin''\<rparr>"

definition truncate_option :: "jsv \<Rightarrow> jsv \<Rightarrow> ioption option" where
  "truncate_option sz fl = Some \<lparr>opt_at = None, opt_size = sz, opt_flush = fl\<rparr>"

section \<open>The coordinator\<close>

text \<open>
  The main thread runs one task at a time; a task runs to completion and tasks interleave
  only at an \<^verbatim>\<open>await\<close>, at the arrival of a worker's message and at the firing of
  the timer. The state below holds the module's variables (\<open>workerResponseHandler\<close>,
  \<open>activeWorkers\<close>, \<open>idleWorkers\<close>, \<open>timeout\<close>) and what surrounds them: the clock,
  the workers created so far and the command each is working on, the calls suspended at
  \<^verbatim>\<open>await this.getFileHandle(fileName)\<close>, the promises handed out, and the files.

  A caller is identified with the promise it was given. An entry of
  \<open>workerResponseHandler\<close> is the list of callers whose \<^verbatim>\<open>resolve, reject\<close> pairs the
  array holds, in order. \<open>posted\<close> logs every \<^verbatim>\<open>worker.postMessage\<close>, \<open>delivered\<close>
  every call of a \<^verbatim>\<open>resolve\<close> or \<^verbatim>\<open>reject\<close> and every rejection returned directly,
  \<open>terminated\<close> every \<^verbatim>\<open>terminate()\<close>. An element \<open>None\<close> of \<open>idleWorkers\<close> is an
  empty slot of the JavaScript array.
\<close>

type_synonym cid = nat
type_synonym wid = nat

datatype outcome = Resolved "resval option" | Rejected err

text \<open>
  The option object of \<^verbatim>\<open>writeFile\<close>: its \<^verbatim>\<open>transfer\<close> field and the rest, which
  goes to the worker.
\<close>

record write_option =
  w_transfer :: jsv
  w_rest :: ioption

text \<open>A call suspended at its \<^verbatim>\<open>await\<close>, with the variables its continuation uses.\<close>

datatype suspended =
    K_getFileSize string string
  | K_readFile string string "ioption option"
  | K_truncateFile string string "ioption option"
  | K_writeFile string string "bytes option" jsv ioption

record sys =
  workerResponseHandler :: "string \<rightharpoonup> cid list"
  activeWorkers :: "wid list"
  idleWorkers :: "wid option list"
  timeout :: "nat option"
  now :: nat
  nextWorker :: wid
  job :: "wid \<rightharpoonup> command_msg"
  posted :: "(wid \<times> command_msg) list"
  terminated :: "wid list"
  awaiting :: "cid \<rightharpoonup> suspended"
  nextPromise :: cid
  delivered :: "(cid \<times> outcome) list"
  files :: "string \<rightharpoonup> fstate"

definition init :: "(string \<rightharpoonup> fstate) \<Rightarrow> sys" where
  "init fs = \<lparr>workerResponseHandler = Map.empty, activeWorkers = [], idleWorkers = [],
     timeout = None, now = 0, nextWorker = 0, job = Map.empty, posted = [], terminated = [],
     awaiting = Map.empty, nextPromise = 0, delivered = [], files = fs\<rparr>"

subsection \<open>The worker pool\<close>

text \<open>\<^verbatim>\<open>clearIdleWorkers\<close>: cancel the pending timer and start one of 10000 ms.\<close>

definition clearIdleWorkers :: "sys \<Rightarrow> sys" where
  "clearIdleWorkers s = s\<lparr>timeout := Some (now s + 10000)\<rparr>"

text \<open>
  The timer's callback. The loop terminates \<^verbatim>\<open>idleWorkers[i]\<close> for \<open>i\<close> from 1; on an
  empty slot \<^verbatim>\<open>idleWorkers[i].terminate()\<close> throws and the callback ends there. Then
  \<^verbatim>\<open>idleWorkers.length = 1\<close> cuts the array to its first element, or extends an empty
  array by one empty slot.
\<close>

fun terminate_loop :: "wid option list \<Rightarrow> wid list \<Rightarrow> bool \<times> wid list" where
  "terminate_loop [] t = (True, t)"
| "terminate_loop (None # ws) t = (False, t)"
| "terminate_loop (Some w # ws) t = terminate_loop ws (t @ [w])"

definition set_length_1 :: "wid option list \<Rightarrow> wid option list" where
  "set_length_1 ws = (case ws of [] \<Rightarrow> [None] | w # _ \<Rightarrow> [w])"

definition timer_callback :: "sys \<Rightarrow> sys" where
  "timer_callback s =
     (case terminate_loop (drop 1 (idleWorkers s)) (terminated s) of
        (True, t) \<Rightarrow> s\<lparr>terminated := t, idleWorkers := set_length_1 (idleWorkers s)\<rparr>
      | (False, t) \<Rightarrow> s\<lparr>terminated := t\<rparr>)"

text \<open>\<^verbatim>\<open>idleWorkers.pop()\<close>: the last element (\<^verbatim>\<open>undefined\<close> for an empty array or an empty slot).\<close>

definition pop :: "wid option list \<Rightarrow> wid option \<times> wid option list" where
  "pop ws = (if ws = [] then (None, []) else (last ws, butlast ws))"

text \<open>
  \<^verbatim>\<open>worker.postMessage(msgData, transfer)\<close> throws a \<^verbatim>\<open>TypeError\<close> when the
  transfer list holds a value that cannot be transferred; of the values modelled only a
  buffer can.
\<close>

fun transferable :: "jsv \<Rightarrow> bool" where
  "transferable (JBuffer b) = True"
| "transferable _ = False"

definition postMessage_throws :: "jsv list option \<Rightarrow> bool" where
  "postMessage_throws transfer =
     (case transfer of None \<Rightarrow> False | Some ts \<Rightarrow> \<not> list_all transferable ts)"

text \<open>
  \<^verbatim>\<open>startWorker(msgData, transfer)\<close>: take a worker from the idle array or create one,
  put it in the active array and post the command to it. The result says whether
  \<^verbatim>\<open>postMessage\<close> threw; by then the worker is in the active array.
\<close>

definition startWorker :: "command_msg \<Rightarrow> jsv list option \<Rightarrow> sys \<Rightarrow> err option \<times> sys" where
  "startWorker msgData transfer s =
     (case pop (idleWorkers s) of
        (Some worker, idle) \<Rightarrow>
          (let s1 = s\<lparr>idleWorkers := idle,
                      activeWorkers := activeWorkers s @ [worker]\<rparr>
           in if postMessage_throws transfer then (Some TypeError, s1)
              else (None, s1\<lparr>job := (job s)(worker \<mapsto> msgData),
                              posted := posted s @ [(worker, msgData)]\<rparr>))
      | (None, idle) \<Rightarrow>
          (let s1 = s\<lparr>idleWorkers := idle,
                      nextWorker := Suc (nextWorker s),
                      activeWorkers := activeWorkers s @ [nextWorker s]\<rparr>
           in if postMessage_throws transfer then (Some TypeError, s1)
              else (None, s1\<lparr>job := (job s)(nextWorker s \<mapsto> msgData),
                              posted := posted s @ [(nextWorker s, msgData)]\<rparr>)))"

text \<open>The worker \<^verbatim>\<open>startWorker\<close> will use in a state.\<close>

definition picked_worker :: "sys \<Rightarrow> wid" where
  "picked_worker s = (case fst (pop (idleWorkers s)) of Some worker \<Rightarrow> worker | None \<Rightarrow> nextWorker s)"

text \<open>\<^verbatim>\<open>completeWork\<close>: remove the worker from the active array, push it on the idle array.\<close>

definition completeWork :: "wid \<Rightarrow> sys \<Rightarrow> sys" where
  "completeWork worker s =
     s\<lparr>activeWorkers := remove1 worker (activeWorkers s),
       idleWorkers := idleWorkers s @ [Some worker]\<rparr>"

subsection \<open>The response table\<close>

text \<open>The property key \<^verbatim>\<open>data.id\<close> names; \<^verbatim>\<open>undefined\<close> names the key \<^verbatim>\<open>"undefined"\<close>.\<close>

definition key_of :: "string option \<Rightarrow> string" where
  "key_of i = (case i of None \<Rightarrow> ''undefined'' | Some k \<Rightarrow> k)"

definition outcome_of :: "response \<Rightarrow> outcome" where
  "outcome_of data = (case r_error data of Some e \<Rightarrow> Rejected e | None \<Rightarrow> Resolved (r_result data))"

text \<open>The loop of \<^verbatim>\<open>handleWorkerResponse\<close> over the pairs of the array.\<close>

fun fan_out :: "response \<Rightarrow> cid list \<Rightarrow> (cid \<times> outcome) list" where
  "fan_out data [] = []"
| "fan_out data (c # cb) = (c, outcome_of data) # fan_out data cb"

text \<open>
  \<^verbatim>\<open>handleWorkerResponse\<close>; \<open>None\<close> when the table has no entry for the id, where
  \<^verbatim>\<open>cb.length\<close> throws.
\<close>

definition handleWorkerResponse :: "response \<Rightarrow> sys \<Rightarrow> sys option" where
  "handleWorkerResponse data s =
     (case workerResponseHandler s (key_of (r_id data)) of
        None \<Rightarrow> None
      | Some cb \<Rightarrow>
          Some (s\<lparr>delivered := delivered s @ fan_out data cb,
                  workerResponseHandler := (workerResponseHandler s)(key_of (r_id data) := None)\<rparr>))"

text \<open>The handler \<^verbatim>\<open>worker.onmessage\<close> that \<^verbatim>\<open>startWorker\<close> installs.\<close>

definition worker_onmessage :: "wid \<Rightarrow> response \<Rightarrow> sys \<Rightarrow> sys" where
  "worker_onmessage worker data s =
     (case handleWorkerResponse data s of
        None \<Rightarrow> s
      | Some s1 \<Rightarrow> clearIdleWorkers (completeWork worker s1))"

subsection \<open>The methods of \<^verbatim>\<open>OPFSQuery\<close>\<close>

definition request_id :: "string \<Rightarrow> string \<Rightarrow> string \<Rightarrow> string" where
  "request_id workingDirectory fileName operation =
     workingDirectory @ ''/'' @ fileName @ ''_'' @ operation"

text \<open>The file a name denotes in the current directory, as a path.\<close>

definition file_path :: "string \<Rightarrow> string \<Rightarrow> string" where
  "file_path workingDirectory fileName = workingDirectory @ ''/'' @ fileName"

definition getFileHandle :: "sys \<Rightarrow> string \<Rightarrow> string option" where
  "getFileHandle s p = (case files s p of None \<Rightarrow> None | Some f \<Rightarrow> Some p)"

text \<open>
  Each method up to its \<^verbatim>\<open>await\<close>. \<^verbatim>\<open>getFileSize\<close> and \<^verbatim>\<open>readFile\<close> look the id up
  and either push their pair on the entry or create the entry and go on;
  \<^verbatim>\<open>truncateFile\<close> and \<^verbatim>\<open>writeFile\<close> return a rejected promise when the entry
  exists and otherwise go on without creating it.
\<close>

definition getFileSize :: "string \<Rightarrow> string \<Rightarrow> sys \<Rightarrow> sys" where
  "getFileSize wd fileName s =
     (let c = nextPromise s; i = request_id wd fileName ''getSize'' in
      case workerResponseHandler s i of
        Some cb \<Rightarrow>
          s\<lparr>nextPromise := Suc c,
            workerResponseHandler := (workerResponseHandler s)(i \<mapsto> cb @ [c])\<rparr>
      | None \<Rightarrow>
          s\<lparr>nextPromise := Suc c,
            workerResponseHandler := (workerResponseHandler s)(i \<mapsto> [c]),
            awaiting := (awaiting s)(c \<mapsto> K_getFileSize i (file_path wd fileName))\<rparr>)"

definition readFile :: "string \<Rightarrow> string \<Rightarrow> ioption option \<Rightarrow> sys \<Rightarrow> sys" where
  "readFile wd fileName option s =
     (let c = nextPromise s; i = request_id wd fileName ''read'' in
      case workerResponseHandler s i of
        Some cb \<Rightarrow>
          s\<lparr>nextPromise := Suc c,
            workerResponseHandler := (workerResponseHandler s)(i \<mapsto> cb @ [c])\<rparr>
      | None \<Rightarrow>
          s\<lparr>nextPromise := Suc c,
            workerResponseHandler := (workerResponseHandler s)(i \<mapsto> [c]),
            awaiting := (awaiting s)(c \<mapsto> K_readFile i (file_path wd fileName) option)\<rparr>)"

definition truncateFile :: "string \<Rightarrow> string \<Rightarrow> ioption option \<Rightarrow> sys \<Rightarrow> sys" where
  "truncateFile wd fileName option s =
     (let c = nextPromise s; i = request_id wd fileName ''truncate'' in
      case workerResponseHandler s i of
        Some cb \<Rightarrow>
          s\<lparr>nextPromise := Suc c,
            delivered := delivered s @ [(c, Rejected (Error ''Truncate fail: File is writing.''))]\<rparr>
      | None \<Rightarrow>
          s\<lparr>nextPromise := Suc c,
            awaiting := (awaiting s)(c \<mapsto> K_truncateFile i (file_path wd fileName) option)\<rparr>)"

text \<open>
  \<^verbatim>\<open>writeFile(fileName, buffer, option = {})\<close>. Its option object is carried as
  \<^verbatim>\<open>const { transfer, ...writeOption } = option\<close> splits it.
\<close>

definition writeFile :: "string \<Rightarrow> string \<Rightarrow> bytes option \<Rightarrow> write_option option \<Rightarrow> sys \<Rightarrow> sys" where
  "writeFile wd fileName buffer option s =
     (let c = nextPromise s; i = request_id wd fileName ''write'' in
      case workerResponseHandler s i of
        Some cb \<Rightarrow>
          s\<lparr>nextPromise := Suc c,
            delivered := delivered s @ [(c, Rejected (Error ''Write fail: File is writing.''))]\<rparr>
      | None \<Rightarrow>
          s\<lparr>nextPromise := Suc c,
            awaiting := (awaiting s)(c \<mapsto> K_writeFile i (file_path wd fileName) buffer
              (case option of None \<Rightarrow> JUndefined | Some x \<Rightarrow> w_transfer x)
              (case option of None \<Rightarrow> empty_option | Some x \<Rightarrow> w_rest x))\<rparr>)"

text \<open>
  Each method after its \<^verbatim>\<open>await\<close>. When the file does not exist the \<^verbatim>\<open>await\<close>
  throws: inside the executor of \<^verbatim>\<open>getFileSize\<close> and \<^verbatim>\<open>readFile\<close> nothing catches
  it and nothing else happens; \<^verbatim>\<open>truncateFile\<close> and \<^verbatim>\<open>writeFile\<close> reject their
  promise. Otherwise the command is started, \<^verbatim>\<open>writeFile\<close> passing
  \<^verbatim>\<open>!!transfer ? [transfer] : undefined\<close> as the transfer list. When
  \<^verbatim>\<open>startWorker\<close> throws, the same holds as for the \<^verbatim>\<open>await\<close>; when it returns,
  \<^verbatim>\<open>truncateFile\<close> and \<^verbatim>\<open>writeFile\<close> store their pair as the entry of the id.
\<close>

fun continue :: "cid \<Rightarrow> suspended \<Rightarrow> sys \<Rightarrow> sys" where
  "continue c (K_getFileSize i p) s =
     (case getFileHandle s p of
        None \<Rightarrow> s
      | Some fileHandle \<Rightarrow>
          snd (startWorker \<lparr>m_id = Some i, m_command = Some ''getSize'', m_data = None,
                            m_option = None, m_fileHandle = Some fileHandle\<rparr> None s))"
| "continue c (K_readFile i p option) s =
     (case getFileHandle s p of
        None \<Rightarrow> s
      | Some fileHandle \<Rightarrow>
          snd (startWorker \<lparr>m_id = Some i, m_command = Some ''read'', m_data = None,
                            m_option = option, m_fileHandle = Some fileHandle\<rparr> None s))"
| "continue c (K_truncateFile i p option) s =
     (case getFileHandle s p of
        None \<Rightarrow> s\<lparr>delivered := delivered s @ [(c, Rejected NotFoundError)]\<rparr>
      | Some fileHandle \<Rightarrow>
          (case startWorker \<lparr>m_id = Some i, m_command = Some ''truncate'', m_data = None,
                             m_option = option, m_fileHandle = Some fileHandle\<rparr> None s of
             (Some e, s1) \<Rightarrow> s1\<lparr>delivered := delivered s1 @ [(c, Rejected e)]\<rparr>
           | (None, s1) \<Rightarrow> s1\<lparr>workerResponseHandler := (workerResponseHandler s1)(i \<mapsto> [c])\<rparr>))"
| "continue c (K_writeFile i p buffer transfer writeOption) s =
     (case getFileHandle s p of
        None \<Rightarrow> s\<lparr>delivered := delivered s @ [(c, Rejected NotFoundError)]\<rparr>
      | Some fileHandle \<Rightarrow>
          (case startWorker \<lparr>m_id = Some i, m_command = Some ''write'', m_data = buffer,
                             m_option = Some writeOption, m_fileHandle = Some fileHandle\<rparr>
                  (if truthy transfer then Some [transfer] else None) s of
             (Some e, s1) \<Rightarrow> s1\<lparr>delivered := delivered s1 @ [(c, Rejected e)]\<rparr>
           | (None, s1) \<Rightarrow> s1\<lparr>workerResponseHandler := (workerResponseHandler s1)(i \<mapsto> [c])\<rparr>))"

definition resume :: "cid \<Rightarrow> sys \<Rightarrow> sys" where
  "resume c s =
     (case awaiting s c of
        None \<Rightarrow> s
      | Some k \<Rightarrow> continue c k (s\<lparr>awaiting := (awaiting s)(c := None)\<rparr>))"

subsection \<open>Workers at work, and the run of the whole\<close>

text \<open>
  A worker handles its command against the file the handle refers to (a handle to a file
  that is gone faults on acquisition), and each response it posts is handled by the main
  thread. The two are taken as one step: the worker touches only the file, the main
  thread only its own state.
\<close>

definition target :: "sys \<Rightarrow> command_msg \<Rightarrow> (string \<times> fstate) option" where
  "target s m =
     (case m_fileHandle m of
        None \<Rightarrow> None
      | Some p \<Rightarrow> (case files s p of None \<Rightarrow> None | Some f \<Rightarrow> Some (p, f)))"

fun deliver :: "wid \<Rightarrow> response list \<Rightarrow> sys \<Rightarrow> sys" where
  "deliver w [] s = s"
| "deliver w (data # rs) s = deliver w rs (worker_onmessage w data s)"

definition worker_done :: "wid \<Rightarrow> hop list \<Rightarrow> sys \<Rightarrow> sys" where
  "worker_done w env s =
     (case job s w of
        None \<Rightarrow> s
      | Some m \<Rightarrow>
          (case target s m of
             None \<Rightarrow>
               deliver w (posts (trace (onmessage (OpCreate # env) m \<lparr>content = [], durable = []\<rparr>)))
                 (s\<lparr>job := (job s)(w := None)\<rparr>)
           | Some (p, f) \<Rightarrow>
               deliver w (posts (trace (onmessage env m f)))
                 (s\<lparr>job := (job s)(w := None),
                    files := (files s)(p \<mapsto> w_file (onmessage env m f))\<rparr>)))"

text \<open>
  The events of a run: a call of one of the four methods, the resumption of a suspended
  call, a worker finishing its command (with the faults it meets), time passing, and the
  timer firing once its delay has passed.
\<close>

datatype event =
    GetFileSize string string
  | ReadFile string string "ioption option"
  | TruncateFile string string "ioption option"
  | WriteFile string string "bytes option" "write_option option"
  | Resume cid
  | WorkerDone wid "hop list"
  | Elapse nat
  | TimerFires

fun step :: "event \<Rightarrow> sys \<Rightarrow> sys" where
  "step (GetFileSize wd fileName) s = getFileSize wd fileName s"
| "step (ReadFile wd fileName option) s = readFile wd fileName option s"
| "step (TruncateFile wd fileName option) s = truncateFile wd fileName option s"
| "step (WriteFile wd fileName buffer option) s = writeFile wd fileName buffer option s"
| "step (Resume c) s = resume c s"
| "step (WorkerDone w env) s = worker_done w env s"
| "step (Elapse d) s = s\<lparr>now := now s + d\<rparr>"
| "step TimerFires s =
     (case timeout s of
        None \<Rightarrow> s
      | Some t \<Rightarrow> if t \<le> now s then timer_callback (s\<lparr>timeout := None\<rparr>) else s)"

fun run :: "event list \<Rightarrow> sys \<Rightarrow> sys" where
  "run [] s = s"
| "run (e # es) s = run es (step e s)"

subsection \<open>Notions used in the statements about the coordinator\<close>

text \<open>
  The request a call makes (working directory, file name, operation), the command its
  continuation posts, the continuation it leaves at its \<^verbatim>\<open>await\<close>, and the error of
  its busy rejection.
\<close>

fun call_of :: "event \<Rightarrow> (string \<times> string \<times> string) option" where
  "call_of (GetFileSize wd fileName) = Some (wd, fileName, ''getSize'')"
| "call_of (ReadFile wd fileName option) = Some (wd, fileName, ''read'')"
| "call_of (TruncateFile wd fileName option) = Some (wd, fileName, ''truncate'')"
| "call_of (WriteFile wd fileName buffer option) = Some (wd, fileName, ''write'')"
| "call_of _ = None"

fun command_data :: "event \<Rightarrow> bytes option" where
  "command_data (WriteFile wd fileName buffer option) = buffer"
| "command_data _ = None"

fun command_option :: "event \<Rightarrow> ioption option" where
  "command_option (ReadFile wd fileName option) = option"
| "command_option (TruncateFile wd fileName option) = option"
| "command_option (WriteFile wd fileName buffer option) =
     Some (case option of None \<Rightarrow> empty_option | Some x \<Rightarrow> w_rest x)"
| "command_option _ = None"

definition command_of :: "event \<Rightarrow> command_msg" where
  "command_of e =
     (case call_of e of
        None \<Rightarrow> \<lparr>m_id = None, m_command = None, m_data = None, m_option = None, m_fileHandle = None\<rparr>
      | Some (wd, fileName, operation) \<Rightarrow>
          \<lparr>m_id = Some (request_id wd fileName operation), m_command = Some operation,
           m_data = command_data e, m_option = command_option e,
           m_fileHandle = Some (file_path wd fileName)\<rparr>)"

text \<open>
  The transfer list a call passes to \<^verbatim>\<open>startWorker\<close>, and the calls whose command
  \<^verbatim>\<open>postMessage\<close> accepts. The state \<^verbatim>\<open>startWorker\<close> leaves when it returns.
\<close>

fun transfer_of :: "event \<Rightarrow> jsv list option" where
  "transfer_of (WriteFile wd fileName buffer (Some option)) =
     (if truthy (w_transfer option) then Some [w_transfer option] else None)"
| "transfer_of _ = None"

definition postable :: "event \<Rightarrow> bool" where
  "postable e = (\<not> postMessage_throws (transfer_of e))"

definition started :: "command_msg \<Rightarrow> sys \<Rightarrow> sys" where
  "started m s =
     s\<lparr>idleWorkers := butlast (idleWorkers s),
       nextWorker := (if fst (pop (idleWorkers s)) = None then Suc (nextWorker s) else nextWorker s),
       activeWorkers := activeWorkers s @ [picked_worker s],
       job := (job s)(picked_worker s \<mapsto> m),
       posted := posted s @ [(picked_worker s, m)]\<rparr>"

definition busy :: "string \<Rightarrow> err" where
  "busy operation =
     (if operation = ''truncate'' then Error ''Truncate fail: File is writing.''
      else Error ''Write fail: File is writing.'')"

text \<open>
  The operations whose concurrent requests share one execution, and those whose
  concurrent requests are rejected.
\<close>

definition shareable :: "string \<Rightarrow> bool" where
  "shareable operation = (operation = ''getSize'' \<or> operation = ''read'')"

definition exclusive :: "string \<Rightarrow> bool" where
  "exclusive operation = (operation = ''truncate'' \<or> operation = ''write'')"

fun suspended_of :: "event \<Rightarrow> suspended" where
  "suspended_of (GetFileSize wd fileName) =
     K_getFileSize (request_id wd fileName ''getSize'') (file_path wd fileName)"
| "suspended_of (ReadFile wd fileName option) =
     K_readFile (request_id wd fileName ''read'') (file_path wd fileName) option"
| "suspended_of (TruncateFile wd fileName option) =
     K_truncateFile (request_id wd fileName ''truncate'') (file_path wd fileName) option"
| "suspended_of (WriteFile wd fileName buffer option) =
     K_writeFile (request_id wd fileName ''write'') (file_path wd fileName) buffer
       (case option of None \<Rightarrow> JUndefined | Some x \<Rightarrow> w_transfer x)
       (case option of None \<Rightarrow> empty_option | Some x \<Rightarrow> w_rest x)"
| "suspended_of _ = K_getFileSize [] []"

subsection \<open>Runs to try the coordinator on\<close>

text \<open>A directory with the one file \<^verbatim>\<open>a.bin\<close> of five bytes, and runs of events on it.\<close>

definition example_files :: "string \<rightharpoonup> fstate" where
  "example_files = [''/a.bin'' \<mapsto> example_file]"

definition read_option :: "int \<Rightarrow> ioption" where
  "read_option k = \<lparr>opt_at = Some k, opt_size = JUndefined, opt_flush = JUndefined\<rparr>"

definition write_during_truncate :: "event list" where
  "write_during_truncate =
     [TruncateFile '''' ''a.bin'' (truncate_option (JNum 2) JUndefined), Resume 0,
      WriteFile '''' ''a.bin'' (Some [1]) None, Resume 1]"

definition concurrent_truncates :: "event list" where
  "concurrent_truncates =
     [TruncateFile '''' ''a.bin'' (truncate_option (JNum 2) JUndefined),
      TruncateFile '''' ''a.bin'' (truncate_option (JNum 4) JUndefined),
      Resume 0, Resume 1, WorkerDone 0 [], WorkerDone 1 []]"

definition reuse_then_reclaim :: "event list" where
  "reuse_then_reclaim =
     [GetFileSize '''' ''a.bin'', Resume 0, WorkerDone 0 [], Elapse 9000,
      GetFileSize '''' ''a.bin'', Resume 1, Elapse 1000, TimerFires, WorkerDone 0 [],
      Elapse 10000, TimerFires]"

definition burst_of_three :: "event list" where
  "burst_of_three =
     [GetFileSize '''' ''a.bin'', ReadFile '''' ''a.bin'' None,
      TruncateFile '''' ''a.bin'' (truncate_option (JNum 2) JUndefined),
      Resume 0, Resume 1, Resume 2,
      WorkerDone 0 [], WorkerDone 1 [], WorkerDone 2 [], Elapse 9999, TimerFires]"

text \<open>A directory tree with the file \<^verbatim>\<open>a.bin\<close> in \<^verbatim>\<open>/docs\<close> and one in the root.\<close>

definition example_tree :: "string \<rightharpoonup> fstate" where
  "example_tree = [''/docs/a.bin'' \<mapsto> example_file, ''/a.bin'' \<mapsto> example_file]"



text \<open>
  Three writes to \<^verbatim>\<open>/docs/a.bin\<close>: the first hands its buffer over to the worker, the
  second is made while the first is at the worker, the third after the first was answered,
  with the option given. Two truncations of the file, the second while the first is at
  the worker.
\<close>

definition three_writes :: "write_option option \<Rightarrow> event list" where
  "three_writes third =
     [WriteFile ''/docs'' ''a.bin'' (Some [1, 2])
        (Some \<lparr>w_transfer = JBuffer [1, 2], w_rest = empty_option\<rparr>), Resume 0,
      WriteFile ''/docs'' ''a.bin'' (Some [3]) None, WorkerDone 0 [],
      WriteFile ''/docs'' ''a.bin'' (Some [7, 8, 9]) third, Resume 2, WorkerDone 0 []]"

definition transfer_true :: write_option where
  "transfer_true = \<lparr>w_transfer = JBool True, w_rest = empty_option\<rparr>"

definition two_truncates :: "event list" where
  "two_truncates =
     [TruncateFile ''/docs'' ''a.bin'' (truncate_option (JNum 2) JUndefined), Resume 0,
      TruncateFile ''/docs'' ''a.bin'' (truncate_option (JNum 4) JUndefined)]"

section \<open>Properties of the worker script\<close>

subsection \<open>The cases of the switch\<close>

lemmas prim_defs = respond_def log_event_def
  createSyncAccessHandle_def ah_getSize_def ah_read_def ah_truncate_def ah_flush_def ah_write_def
  ah_close_def newArrayBuffer_def andThen_def lift_def ok_def flush_if_def at_or_0_def
  error_response_def result_response_def

lemma switch_getSize: "m_command m = Some ''getSize'' \<Longrightarrow> switch_command env m o' = case_getSize env m"
  by (simp add: switch_command_def)

lemma switch_read: "m_command m = Some ''read'' \<Longrightarrow> switch_command env m o' = case_read env m o'"
  by (simp add: switch_command_def)

lemma switch_truncate: "m_command m = Some ''truncate'' \<Longrightarrow> switch_command env m o' = case_truncate env m o'"
  by (simp add: switch_command_def)

lemma switch_write: "m_command m = Some ''write'' \<Longrightarrow> switch_command env m o' = case_write env m o'"
  by (simp add: switch_command_def)

lemma switch_default: "\<not> known_command m \<Longrightarrow> switch_command env m o' = ok ()"
  by (simp add: switch_command_def known_command_def)

lemma case_getSize_eq:
  "case_getSize env m s =
    (if OpGetSize \<in> set env then (Inl (DOMException OpGetSize), s)
     else (Inr (), s\<lparr>trace := trace s @ [DidGetSize, result_response m (RNum (int (length (content (w_file s)))))]\<rparr>))"
  by (simp add: case_getSize_def prim_defs)

lemma case_read_eq:
  "case_read env m o' s =
    (if OpGetSize \<in> set env then (Inl (DOMException OpGetSize), s)
     else if int (length (content (w_file s))) < at_or_0 o' then (Inl RangeError, s\<lparr>trace := trace s @ [DidGetSize]\<rparr>)
     else if at_or_0 o' < 0 then (Inl TypeError, s\<lparr>trace := trace s @ [DidGetSize]\<rparr>)
     else if OpRead \<in> set env then (Inl (DOMException OpRead), s\<lparr>trace := trace s @ [DidGetSize]\<rparr>)
     else (Inr (), s\<lparr>trace := trace s @ [DidGetSize, DidRead,
              result_response m (RBuf (drop (nat (at_or_0 o')) (content (w_file s))))]\<rparr>))"
  by (auto simp: case_read_def prim_defs Let_def split: option.splits)

lemma case_truncate_eq:
  "case_truncate env m o' s =
    (case valid_size (opt_size o') of
       None \<Rightarrow> (Inr (), s\<lparr>trace := trace s @ [result_response m (RNum 0)]\<rparr>)
     | Some n \<Rightarrow>
        if OpTruncate \<in> set env then (Inl (DOMException OpTruncate), s)
        else let c = content (w_file s); c' = take (nat n) c @ replicate (nat n - length c) 0 in
          if truthy (opt_flush o') then
            if OpFlush \<in> set env
            then (Inl (DOMException OpFlush), s\<lparr>w_file := (w_file s)\<lparr>content := c'\<rparr>, trace := trace s @ [DidTruncate (nat n)]\<rparr>)
            else (Inr (), s\<lparr>w_file := \<lparr>content = c', durable = c'\<rparr>,
                    trace := trace s @ [DidTruncate (nat n), DidFlush, result_response m (RNum n)]\<rparr>)
          else (Inr (), s\<lparr>w_file := (w_file s)\<lparr>content := c'\<rparr>,
                    trace := trace s @ [DidTruncate (nat n), result_response m (RNum n)]\<rparr>))"
  by (auto simp: case_truncate_def prim_defs Let_def split: option.splits)

lemma posts_append: "posts (xs @ ys) = posts xs @ posts ys"
  by (induction xs rule: posts.induct) simp_all

lemma shape_getSize: "m_command m = Some ''getSize'' \<Longrightarrow> body_shape m s (case_getSize env m s)"
  by (simp add: body_shape_def case_getSize_eq known_command_def result_response_def)

lemma shape_read: "m_command m = Some ''read'' \<Longrightarrow> body_shape m s (case_read env m o' s)"
  by (simp add: body_shape_def case_read_eq known_command_def result_response_def)

lemma shape_truncate: "m_command m = Some ''truncate'' \<Longrightarrow> body_shape m s (case_truncate env m o' s)"
  by (simp add: body_shape_def case_truncate_eq known_command_def result_response_def Let_def split: option.splits)

lemma shape_write: "m_command m = Some ''write'' \<Longrightarrow> body_shape m s (case_write env m o' s)"
  by (auto simp: body_shape_def case_write_def known_command_def prim_defs split: option.splits)

lemma shape_switch: "body_shape m s (switch_command env m o' s)"
proof (cases "known_command m")
  case True
  then show ?thesis
    unfolding known_command_def
    by (auto simp: switch_getSize switch_read switch_truncate switch_write
        shape_getSize shape_read shape_truncate shape_write)
next
  case False
  then show ?thesis
    by (simp add: switch_default ok_def body_shape_def)
qed

subsection \<open>The handler as a whole\<close>

lemma onmessage_missing:
  "missing m \<Longrightarrow> onmessage env m f =
     \<lparr>w_file = f, accessHandle = False,
      trace = [error_response m (Error ''missing id | command | fileHandle!'')]\<rparr>"
  by (simp add: onmessage_def respond_def log_event_def error_response_def)

lemma onmessage_create_fault:
  "\<not> missing m \<Longrightarrow> OpCreate \<in> set env \<Longrightarrow> onmessage env m f =
     \<lparr>w_file = f, accessHandle = False, trace = [error_response m (DOMException OpCreate)]\<rparr>"
  by (simp add: onmessage_def try_block_def createSyncAccessHandle_def andThen_def
      respond_def log_event_def error_response_def finally_block_def)

lemma onmessage_acquired:
  "\<not> missing m \<Longrightarrow> OpCreate \<notin> set env \<Longrightarrow> onmessage env m f =
     (case switch_command env m (option_of m) \<lparr>w_file = f, accessHandle = True, trace = [Acquired]\<rparr> of
        (Inr u, s1) \<Rightarrow> finally_block s1
      | (Inl e, s1) \<Rightarrow> finally_block (respond (m_id m) None (Some e) s1))"
  by (simp add: onmessage_def try_block_def createSyncAccessHandle_def andThen_def log_event_def)

lemma onmessage_acquired_trace:
  assumes "\<not> missing m" "OpCreate \<notin> set env"
  shows "\<exists>es. trace (onmessage env m f) = Acquired # es @ [Closed] \<and> Closed \<notin> set es \<and>
           Acquired \<notin> set es \<and>
           (if known_command m then (\<exists>r. posts es = [r] \<and> r_id r = m_id m \<and> one_of_result_error r)
            else posts es = [])"
proof -
  let ?s = "\<lparr>w_file = f, accessHandle = True, trace = [Acquired]\<rparr>"
  obtain r s1 where rs: "switch_command env m (option_of m) ?s = (r, s1)"
    by (cases "switch_command env m (option_of m) ?s")
  have "body_shape m ?s (r, s1)"
    using shape_switch [of m ?s env "option_of m"] rs by simp
  then obtain es where h: "accessHandle s1" "trace s1 = Acquired # es" "Closed \<notin> set es"
      "Acquired \<notin> set es"
      "case r of Inl e \<Rightarrow> posts es = [] \<and> known_command m
       | Inr u \<Rightarrow> if known_command m
                  then (\<exists>v. posts es = [\<lparr>r_id = m_id m, r_result = Some v, r_error = None\<rparr>])
                  else posts es = []"
    by (auto simp: body_shape_def)
  show ?thesis
  proof (cases r)
    case (Inr u)
    then have "trace (onmessage env m f) = Acquired # es @ [Closed]"
      using assms rs h by (simp add: onmessage_acquired finally_block_def ah_close_def log_event_def)
    moreover have "if known_command m then (\<exists>r. posts es = [r] \<and> r_id r = m_id m \<and> one_of_result_error r)
            else posts es = []"
      using h(5) Inr by (auto simp: one_of_result_error_def)
    ultimately show ?thesis using h by blast
  next
    case (Inl e)
    let ?es = "es @ [error_response m e]"
    have "trace (onmessage env m f) = Acquired # ?es @ [Closed]"
      using assms rs h Inl
      by (simp add: onmessage_acquired finally_block_def ah_close_def log_event_def respond_def
          error_response_def)
    moreover have "posts ?es = [\<lparr>r_id = m_id m, r_result = None, r_error = Some e\<rparr>]"
      using h(5) Inl by (simp add: posts_append error_response_def)
    moreover have "Closed \<notin> set ?es" "Acquired \<notin> set ?es" "known_command m"
      using h Inl by (simp_all add: error_response_def)
    ultimately show ?thesis
      by (intro exI [of _ ?es]) (simp add: one_of_result_error_def)
  qed
qed

lemma acquired_iff:
  "Acquired \<in> set (trace (onmessage env m f)) \<longleftrightarrow> \<not> missing m \<and> OpCreate \<notin> set env"
proof (cases "missing m")
  case True
  then show ?thesis by (simp add: onmessage_missing error_response_def)
next
  case False
  show ?thesis
  proof (cases "OpCreate \<in> set env")
    case True
    with False show ?thesis by (simp add: onmessage_create_fault error_response_def)
  next
    case no: False
    from onmessage_acquired_trace [OF False no, of f] False no show ?thesis by auto
  qed
qed

subsection \<open>Closing the handle\<close>

lemma takeWhile_not_in: "x \<notin> set es \<Longrightarrow> takeWhile (\<lambda>e. e \<noteq> x) (es @ x # ys) = es"
  by (induction es) auto

text \<open>
  Claim C3, as the code has it. Whenever a command acquires the exclusive handle, whatever the
  command and whichever methods fault, the handle is closed exactly once, and the close is
  the last thing the worker does: every response of the command is posted before the close,
  none after it.
\<close>

theorem handle_closed_once_after_response:
  assumes "Acquired \<in> set (trace (onmessage env m f))"
  shows "count_list (trace (onmessage env m f)) Closed = 1 \<and>
         last (trace (onmessage env m f)) = Closed \<and>
         responses_before_close (trace (onmessage env m f)) = posts (trace (onmessage env m f))"
proof -
  from assms have "\<not> missing m" "OpCreate \<notin> set env"
    by (simp_all add: acquired_iff)
  from onmessage_acquired_trace [OF this, of f]
  obtain es where t: "trace (onmessage env m f) = Acquired # es @ [Closed]" and n: "Closed \<notin> set es"
    by blast
  have "takeWhile (\<lambda>e. e \<noteq> Closed) (Acquired # es @ [Closed]) = Acquired # es"
    using takeWhile_not_in [OF n, of "[]"] by simp
  then show ?thesis
    using t n by (simp add: responses_before_close_def posts_append count_list_0_iff)
qed

lemmas worker_defs = onmessage_def missing_def try_block_def switch_command_def case_getSize_def
  case_read_def case_truncate_def case_write_def finally_block_def option_of_def empty_option_def
  prim_defs

lemma example_getSize_trace:
  "trace (onmessage [] (example_msg ''getSize'' None) example_file) =
     [Acquired, DidGetSize,
      Posted \<lparr>r_id = Some ''/a.bin_op'', r_result = Some (RNum 5), r_error = None\<rparr>, Closed]"
  by (simp add: worker_defs example_msg_def example_file_def)

text \<open>Witness for C3: a \<^verbatim>\<open>getSize\<close> command on a file of five bytes.\<close>

theorem handle_closed_once_after_response_witness:
  "Acquired \<in> set (trace (onmessage [] (example_msg ''getSize'' None) example_file)) \<and>
   count_list (trace (onmessage [] (example_msg ''getSize'' None) example_file)) Closed = 1 \<and>
   last (trace (onmessage [] (example_msg ''getSize'' None) example_file)) = Closed \<and>
   responses_before_close (trace (onmessage [] (example_msg ''getSize'' None) example_file)) =
     posts (trace (onmessage [] (example_msg ''getSize'' None) example_file))"
proof -
  have h: "Acquired \<in> set (trace (onmessage [] (example_msg ''getSize'' None) example_file))"
    by (simp add: example_getSize_trace)
  show ?thesis
    by (rule conjI [OF h handle_closed_once_after_response [OF h]])
qed

text \<open>
  Counterexample for C3 as stated: for a \<^verbatim>\<open>getSize\<close> command the response is posted
  while the handle is still open; the close follows it.
\<close>

theorem close_before_response_counterexample:
  "trace (onmessage [] (example_msg ''getSize'' None) example_file) =
     [Acquired, DidGetSize,
      Posted \<lparr>r_id = Some ''/a.bin_op'', r_result = Some (RNum 5), r_error = None\<rparr>, Closed] \<and>
   responses_before_close (trace (onmessage [] (example_msg ''getSize'' None) example_file)) \<noteq> []"
  by (simp add: example_getSize_trace responses_before_close_def)

subsection \<open>One response for a command\<close>

lemma onmessage_posts:
  "if missing m \<or> known_command m \<or> OpCreate \<in> set env
   then (\<exists>r. posts (trace (onmessage env m f)) = [r] \<and> r_id r = m_id m \<and> one_of_result_error r)
   else posts (trace (onmessage env m f)) = [] \<and>
        trace (onmessage env m f) = [Acquired, Closed]"
proof (cases "missing m")
  case True
  then show ?thesis
    by (simp add: onmessage_missing error_response_def one_of_result_error_def)
next
  case False
  show ?thesis
  proof (cases "OpCreate \<in> set env")
    case True
    with False show ?thesis
      by (simp add: onmessage_create_fault error_response_def one_of_result_error_def)
  next
    case no: False
    from onmessage_acquired_trace [OF False no, of f]
    obtain es where t: "trace (onmessage env m f) = Acquired # es @ [Closed]"
      and p: "if known_command m
              then (\<exists>r. posts es = [r] \<and> r_id r = m_id m \<and> one_of_result_error r)
              else posts es = []"
      by blast
    show ?thesis
    proof (cases "known_command m")
      case True
      with t p show ?thesis by (auto simp: posts_append)
    next
      case unk: False
      have "onmessage env m f = \<lparr>w_file = f, accessHandle = True, trace = [Acquired, Closed]\<rparr>"
        using False no unk
        by (simp add: onmessage_acquired switch_default ok_def finally_block_def ah_close_def
            log_event_def)
      with False no unk show ?thesis by simp
    qed
  qed
qed

text \<open>
  Claim C5, as the code has it. A command that lacks a required field, or names one of
  \<^verbatim>\<open>getSize\<close>, \<^verbatim>\<open>read\<close>, \<^verbatim>\<open>truncate\<close>, \<^verbatim>\<open>write\<close>, or whose handle cannot be
  acquired, is answered by exactly one response, which carries the command's id and has
  exactly one of result and error set. Any other command acquires the handle, closes it
  and posts no response.
\<close>

theorem one_response_for_known_commands:
  "if missing m \<or> known_command m \<or> OpCreate \<in> set env
   then (\<exists>r. posts (trace (onmessage env m f)) = [r] \<and> r_id r = m_id m \<and> one_of_result_error r)
   else posts (trace (onmessage env m f)) = [] \<and>
        trace (onmessage env m f) = [Acquired, Closed]"
  by (rule onmessage_posts)

text \<open>Witness for C5: a \<^verbatim>\<open>getSize\<close> command, and a command named \<^verbatim>\<open>move\<close>.\<close>

theorem one_response_for_known_commands_witness:
  "(\<exists>r. posts (trace (onmessage [] (example_msg ''getSize'' None) example_file)) = [r] \<and>
        r_id r = m_id (example_msg ''getSize'' None) \<and> one_of_result_error r) \<and>
   posts (trace (onmessage [] (example_msg ''move'' None) example_file)) = [] \<and>
   trace (onmessage [] (example_msg ''move'' None) example_file) = [Acquired, Closed]"
proof -
  have k: "known_command (example_msg ''getSize'' None)"
    by (simp add: known_command_def example_msg_def)
  have u: "\<not> (missing (example_msg ''move'' None) \<or> known_command (example_msg ''move'' None)
              \<or> OpCreate \<in> set [])"
    by (simp add: known_command_def missing_def example_msg_def)
  from k one_response_for_known_commands [of "example_msg ''getSize'' None" "[]" example_file]
  have a: "\<exists>r. posts (trace (onmessage [] (example_msg ''getSize'' None) example_file)) = [r] \<and>
        r_id r = m_id (example_msg ''getSize'' None) \<and> one_of_result_error r"
    by simp
  from u one_response_for_known_commands [of "example_msg ''move'' None" "[]" example_file]
  have b: "posts (trace (onmessage [] (example_msg ''move'' None) example_file)) = [] \<and>
   trace (onmessage [] (example_msg ''move'' None) example_file) = [Acquired, Closed]"
    by simp
  from a b show ?thesis by (rule conjI)
qed

text \<open>
  Counterexample for C5 as stated: a command with all three required fields whose name is
  none of the four is processed without any response.
\<close>

theorem no_response_counterexample:
  "\<not> missing (example_msg ''move'' None) \<and>
   posts (trace (onmessage [] (example_msg ''move'' None) example_file)) = []"
  by (simp add: worker_defs example_msg_def example_file_def)

subsection \<open>Missing parameters\<close>

text \<open>
  Claim C9. A command without \<^verbatim>\<open>id\<close>, \<^verbatim>\<open>command\<close> or \<^verbatim>\<open>fileHandle\<close> is answered
  by one response whose error is set and whose result is not; the handle is never acquired
  and the file is left as it was.
\<close>

theorem missing_parameter_response:
  assumes "m_id m = None \<or> m_command m = None \<or> m_fileHandle m = None"
  shows "onmessage env m f =
           \<lparr>w_file = f, accessHandle = False,
            trace = [Posted \<lparr>r_id = m_id m, r_result = None,
                             r_error = Some (Error ''missing id | command | fileHandle!'')\<rparr>]\<rparr> \<and>
         Acquired \<notin> set (trace (onmessage env m f))"
proof -
  from assms have "missing m" by (auto simp: missing_def)
  then show ?thesis by (simp add: onmessage_missing error_response_def)
qed

text \<open>Witness for C9: a \<^verbatim>\<open>read\<close> command without its file handle.\<close>

theorem missing_parameter_response_witness:
  "onmessage [] ((example_msg ''read'' None)\<lparr>m_fileHandle := None\<rparr>) example_file =
     \<lparr>w_file = example_file, accessHandle = False,
      trace = [Posted \<lparr>r_id = Some ''/a.bin_op'', r_result = None,
                       r_error = Some (Error ''missing id | command | fileHandle!'')\<rparr>]\<rparr> \<and>
   Acquired \<notin> set (trace (onmessage [] ((example_msg ''read'' None)\<lparr>m_fileHandle := None\<rparr>) example_file))"
  using missing_parameter_response [of "(example_msg ''read'' None)\<lparr>m_fileHandle := None\<rparr>" "[]" example_file]
  by (simp add: example_msg_def)

subsection \<open>Reading from an offset\<close>

lemma case_read_at0:
  "case_read env m (o'\<lparr>opt_at := None\<rparr>) = case_read env m (o'\<lparr>opt_at := Some 0\<rparr>)"
  by (rule ext) (simp add: case_read_def prim_defs)

lemma case_write_at0:
  "case_write env m (o'\<lparr>opt_at := None\<rparr>) = case_write env m (o'\<lparr>opt_at := Some 0\<rparr>)"
  by (rule ext) (simp add: case_write_def prim_defs split: option.splits)

lemma case_truncate_at0:
  "case_truncate env m (o'\<lparr>opt_at := None\<rparr>) = case_truncate env m (o'\<lparr>opt_at := Some 0\<rparr>)"
  by (rule ext) (simp add: case_truncate_def prim_defs split: option.splits)

lemma switch_at0:
  "switch_command env m (o'\<lparr>opt_at := None\<rparr>) = switch_command env m (o'\<lparr>opt_at := Some 0\<rparr>)"
  by (simp only: switch_command_def case_read_at0 case_write_at0 case_truncate_at0)

lemma switch_ignores_option_field:
  "switch_command env (m\<lparr>m_option := x\<rparr>) = switch_command env m"
  by (rule ext)
    (simp add: switch_command_def case_getSize_def case_read_def case_truncate_def case_write_def
      split: option.splits)

lemma try_block_at0:
  "try_block env (m\<lparr>m_option := Some (o'\<lparr>opt_at := None\<rparr>)\<rparr>) =
   try_block env (m\<lparr>m_option := Some (o'\<lparr>opt_at := Some 0\<rparr>)\<rparr>)"
  by (simp add: try_block_def option_of_def switch_at0 switch_ignores_option_field)

lemma try_block_no_option:
  "try_block env (m\<lparr>m_option := None\<rparr>) =
   try_block env (m\<lparr>m_option := Some (empty_option\<lparr>opt_at := Some 0\<rparr>)\<rparr>)"
proof -
  have "empty_option = empty_option\<lparr>opt_at := None\<rparr>"
    by (simp add: empty_option_def)
  then have "switch_command env m empty_option =
        switch_command env m (empty_option\<lparr>opt_at := Some 0\<rparr>)"
    using switch_at0 [of env m empty_option] by simp
  then show ?thesis
    by (simp add: try_block_def option_of_def switch_ignores_option_field)
qed

lemma onmessage_at0:
  "onmessage env (m\<lparr>m_option := Some (o'\<lparr>opt_at := None\<rparr>)\<rparr>) f =
   onmessage env (m\<lparr>m_option := Some (o'\<lparr>opt_at := Some 0\<rparr>)\<rparr>) f"
  by (simp add: onmessage_def Let_def missing_def try_block_at0 split: prod.splits sum.splits)

lemma onmessage_no_option:
  "onmessage env (m\<lparr>m_option := None\<rparr>) f =
   onmessage env (m\<lparr>m_option := Some (empty_option\<lparr>opt_at := Some 0\<rparr>)\<rparr>) f"
  by (simp add: onmessage_def Let_def missing_def try_block_no_option split: prod.splits sum.splits)

lemma onmessage_read_ok:
  assumes "\<not> missing m" "m_command m = Some ''read''" "OpCreate \<notin> set env" "OpGetSize \<notin> set env"
    "OpRead \<notin> set env" "opt_at (option_of m) = Some k" "0 \<le> k" "k \<le> int (length (content f))"
  shows "onmessage env m f =
        \<lparr>w_file = f, accessHandle = True,
         trace = [Acquired, DidGetSize, DidRead,
                  Posted \<lparr>r_id = m_id m, r_result = Some (RBuf (drop (nat k) (content f))), r_error = None\<rparr>,
                  Closed]\<rparr>"
  using assms
  by (simp add: onmessage_acquired switch_read case_read_eq at_or_0_def finally_block_def
      ah_close_def log_event_def result_response_def)

text \<open>
  Claim C7. When no method faults, a \<^verbatim>\<open>read\<close> with \<open>at = k\<close>, \<open>0 \<le> k \<le> S\<close>, on a
  file of \<open>S\<close> bytes answers with the file's bytes from \<open>k\<close> on, \<open>S - k\<close> of them. A
  \<^verbatim>\<open>read\<close> without an option object, or with one that has no \<open>at\<close>, does exactly what
  the same command with \<open>at = 0\<close> does.
\<close>

theorem read_offset_law:
  "(\<not> missing m \<and> m_command m = Some ''read'' \<and> OpCreate \<notin> set env \<and> OpGetSize \<notin> set env \<and>
    OpRead \<notin> set env \<and> opt_at (option_of m) = Some k \<and> 0 \<le> k \<and> k \<le> int (length (content f)) \<longrightarrow>
      onmessage env m f =
        \<lparr>w_file = f, accessHandle = True,
         trace = [Acquired, DidGetSize, DidRead,
                  Posted \<lparr>r_id = m_id m, r_result = Some (RBuf (drop (nat k) (content f))), r_error = None\<rparr>,
                  Closed]\<rparr> \<and>
      int (length (drop (nat k) (content f))) = int (length (content f)) - k) \<and>
   onmessage env (m\<lparr>m_option := None\<rparr>) f =
     onmessage env (m\<lparr>m_option := Some (empty_option\<lparr>opt_at := Some 0\<rparr>)\<rparr>) f \<and>
   onmessage env (m\<lparr>m_option := Some (option\<lparr>opt_at := None\<rparr>)\<rparr>) f =
     onmessage env (m\<lparr>m_option := Some (option\<lparr>opt_at := Some 0\<rparr>)\<rparr>) f"
  using onmessage_read_ok [of m env k f] onmessage_no_option onmessage_at0 by auto

text \<open>Witness for C7: reading a file of five bytes from offset 2.\<close>

theorem read_offset_law_witness:
  "onmessage [] (example_msg ''read'' (Some (empty_option\<lparr>opt_at := Some 2\<rparr>))) example_file =
     \<lparr>w_file = example_file, accessHandle = True,
      trace = [Acquired, DidGetSize, DidRead,
               Posted \<lparr>r_id = Some ''/a.bin_op'', r_result = Some (RBuf [30, 40, 50]), r_error = None\<rparr>,
               Closed]\<rparr>"
proof -
  have "\<not> missing (example_msg ''read'' (Some (empty_option\<lparr>opt_at := Some 2\<rparr>))) \<and>
        m_command (example_msg ''read'' (Some (empty_option\<lparr>opt_at := Some 2\<rparr>))) = Some ''read'' \<and>
        OpCreate \<notin> set [] \<and> OpGetSize \<notin> set [] \<and> OpRead \<notin> set [] \<and>
        opt_at (option_of (example_msg ''read'' (Some (empty_option\<lparr>opt_at := Some 2\<rparr>)))) = Some 2 \<and>
        (0::int) \<le> 2 \<and> 2 \<le> int (length (content example_file))"
    by (simp add: missing_def example_msg_def option_of_def example_file_def)
  with read_offset_law [of "example_msg ''read'' (Some (empty_option\<lparr>opt_at := Some 2\<rparr>))" "[]" 2 example_file]
  have "onmessage [] (example_msg ''read'' (Some (empty_option\<lparr>opt_at := Some 2\<rparr>))) example_file =
        \<lparr>w_file = example_file, accessHandle = True,
         trace = [Acquired, DidGetSize, DidRead,
                  Posted \<lparr>r_id = m_id (example_msg ''read'' (Some (empty_option\<lparr>opt_at := Some 2\<rparr>))),
                     r_result = Some (RBuf (drop (nat 2) (content example_file))), r_error = None\<rparr>,
                  Closed]\<rparr>"
    by blast
  then show ?thesis
    by (simp add: example_msg_def example_file_def)
qed

subsection \<open>Truncating\<close>

lemma valid_size_Some: "0 \<le> T \<Longrightarrow> valid_size (JNum T) = Some T"
  by simp

lemma valid_size_None: "\<not> (\<exists>T. v = JNum T \<and> 0 \<le> T) \<Longrightarrow> valid_size v = None"
  by (cases v) auto

lemma onmessage_getSize_ok:
  "\<not> missing g \<Longrightarrow> m_command g = Some ''getSize'' \<Longrightarrow> OpCreate \<notin> set env \<Longrightarrow>
   OpGetSize \<notin> set env \<Longrightarrow>
   onmessage env g f =
     \<lparr>w_file = f, accessHandle = True,
      trace = [Acquired, DidGetSize, result_response g (RNum (int (length (content f)))), Closed]\<rparr>"
  by (simp add: onmessage_acquired switch_getSize case_getSize_eq finally_block_def ah_close_def
      log_event_def)

lemma onmessage_truncate_valid:
  assumes "\<not> missing m" "m_command m = Some ''truncate''" "OpCreate \<notin> set env"
    "opt_size (option_of m) = JNum T" "0 \<le> T" "OpTruncate \<notin> set env"
    "truthy (opt_flush (option_of m)) \<longrightarrow> OpFlush \<notin> set env"
  shows "onmessage env m f =
     (let c = take (nat T) (content f) @ replicate (nat T - length (content f)) 0 in
      if truthy (opt_flush (option_of m))
      then \<lparr>w_file = \<lparr>content = c, durable = c\<rparr>, accessHandle = True,
            trace = [Acquired, DidTruncate (nat T), DidFlush, result_response m (RNum T), Closed]\<rparr>
      else \<lparr>w_file = f\<lparr>content := c\<rparr>, accessHandle = True,
            trace = [Acquired, DidTruncate (nat T), result_response m (RNum T), Closed]\<rparr>)"
  using assms
  by (simp add: onmessage_acquired switch_truncate case_truncate_eq finally_block_def ah_close_def
      log_event_def Let_def)

lemma onmessage_truncate_invalid:
  assumes "\<not> missing m" "m_command m = Some ''truncate''" "OpCreate \<notin> set env"
    "\<not> (\<exists>T. opt_size (option_of m) = JNum T \<and> 0 \<le> T)"
  shows "onmessage env m f =
     \<lparr>w_file = f, accessHandle = True, trace = [Acquired, result_response m (RNum 0), Closed]\<rparr>"
  using assms valid_size_None [OF assms(4)]
  by (simp add: onmessage_acquired switch_truncate case_truncate_eq finally_block_def ah_close_def
      log_event_def)

text \<open>
  Claim C8. For a \<^verbatim>\<open>truncate\<close> command whose handle is acquired: with \<open>size = T\<close>,
  \<open>T \<ge> 0\<close>, and no fault in the methods used, the response carries \<open>T\<close>, the file has
  \<open>T\<close> bytes, a later \<^verbatim>\<open>getSize\<close> answers \<open>T\<close>, and with a truthy \<open>flush\<close> the
  flush comes before the response and leaves the durable bytes equal to the current ones.
  When \<open>size\<close> is not a number \<open>\<ge> 0\<close> the file is unchanged and the response
  carries 0.
\<close>

theorem truncate_semantics:
  assumes "\<not> missing m" and "m_command m = Some ''truncate''" and "OpCreate \<notin> set env"
  shows "(opt_size (option_of m) = JNum T \<and> 0 \<le> T \<and> OpTruncate \<notin> set env \<and>
          (truthy (opt_flush (option_of m)) \<longrightarrow> OpFlush \<notin> set env) \<longrightarrow>
            posts (trace (onmessage env m f)) = [\<lparr>r_id = m_id m, r_result = Some (RNum T), r_error = None\<rparr>] \<and>
            int (length (content (w_file (onmessage env m f)))) = T \<and>
            (\<not> missing g \<and> m_command g = Some ''getSize'' \<and> OpCreate \<notin> set env' \<and> OpGetSize \<notin> set env' \<longrightarrow>
               posts (trace (onmessage env' g (w_file (onmessage env m f)))) =
                 [\<lparr>r_id = m_id g, r_result = Some (RNum T), r_error = None\<rparr>]) \<and>
            (truthy (opt_flush (option_of m)) \<longrightarrow>
               trace (onmessage env m f) =
                 [Acquired, DidTruncate (nat T), DidFlush,
                  Posted \<lparr>r_id = m_id m, r_result = Some (RNum T), r_error = None\<rparr>, Closed] \<and>
               durable (w_file (onmessage env m f)) = content (w_file (onmessage env m f)))) \<and>
         (\<not> (\<exists>n. opt_size (option_of m) = JNum n \<and> 0 \<le> n) \<longrightarrow>
            w_file (onmessage env m f) = f \<and>
            posts (trace (onmessage env m f)) = [\<lparr>r_id = m_id m, r_result = Some (RNum 0), r_error = None\<rparr>])"
proof -
  have inval: "w_file (onmessage env m f) = f \<and>
      posts (trace (onmessage env m f)) = [\<lparr>r_id = m_id m, r_result = Some (RNum 0), r_error = None\<rparr>]"
    if inv: "\<not> (\<exists>n. opt_size (option_of m) = JNum n \<and> 0 \<le> n)"
    using onmessage_truncate_invalid [OF assms inv] by (simp add: result_response_def)
  have val: "posts (trace (onmessage env m f)) = [\<lparr>r_id = m_id m, r_result = Some (RNum T), r_error = None\<rparr>] \<and>
            int (length (content (w_file (onmessage env m f)))) = T \<and>
            (\<not> missing g \<and> m_command g = Some ''getSize'' \<and> OpCreate \<notin> set env' \<and> OpGetSize \<notin> set env' \<longrightarrow>
               posts (trace (onmessage env' g (w_file (onmessage env m f)))) =
                 [\<lparr>r_id = m_id g, r_result = Some (RNum T), r_error = None\<rparr>]) \<and>
            (truthy (opt_flush (option_of m)) \<longrightarrow>
               trace (onmessage env m f) =
                 [Acquired, DidTruncate (nat T), DidFlush,
                  Posted \<lparr>r_id = m_id m, r_result = Some (RNum T), r_error = None\<rparr>, Closed] \<and>
               durable (w_file (onmessage env m f)) = content (w_file (onmessage env m f)))"
    if v: "opt_size (option_of m) = JNum T \<and> 0 \<le> T \<and> OpTruncate \<notin> set env \<and>
          (truthy (opt_flush (option_of m)) \<longrightarrow> OpFlush \<notin> set env)"
  proof -
    from v have eq: "onmessage env m f =
       (let c = take (nat T) (content f) @ replicate (nat T - length (content f)) 0 in
        if truthy (opt_flush (option_of m))
        then \<lparr>w_file = \<lparr>content = c, durable = c\<rparr>, accessHandle = True,
              trace = [Acquired, DidTruncate (nat T), DidFlush, result_response m (RNum T), Closed]\<rparr>
        else \<lparr>w_file = f\<lparr>content := c\<rparr>, accessHandle = True,
              trace = [Acquired, DidTruncate (nat T), result_response m (RNum T), Closed]\<rparr>)"
      using onmessage_truncate_valid [OF assms, of T f] by blast
    have p: "posts (trace (onmessage env m f)) = [\<lparr>r_id = m_id m, r_result = Some (RNum T), r_error = None\<rparr>]"
      by (simp add: eq Let_def result_response_def)
    have len: "int (length (content (w_file (onmessage env m f)))) = T"
      using v by (auto simp: eq Let_def)
    have later: "posts (trace (onmessage env' g (w_file (onmessage env m f)))) =
            [\<lparr>r_id = m_id g, r_result = Some (RNum T), r_error = None\<rparr>]"
      if "\<not> missing g \<and> m_command g = Some ''getSize'' \<and> OpCreate \<notin> set env' \<and> OpGetSize \<notin> set env'"
      using that len by (simp add: onmessage_getSize_ok result_response_def)
    have fl: "trace (onmessage env m f) =
            [Acquired, DidTruncate (nat T), DidFlush,
             Posted \<lparr>r_id = m_id m, r_result = Some (RNum T), r_error = None\<rparr>, Closed] \<and>
          durable (w_file (onmessage env m f)) = content (w_file (onmessage env m f))"
      if "truthy (opt_flush (option_of m))"
      using that by (simp add: eq Let_def result_response_def)
    from p len later fl show ?thesis by blast
  qed
  from inval val show ?thesis by blast
qed

text \<open>
  Witness for C8: truncating a file of five bytes to 7 with \<open>flush\<close>, and with the
  invalid size \<open>-1\<close>.
\<close>

theorem truncate_semantics_witness:
  "posts (trace (onmessage [] (example_msg ''truncate'' (truncate_option (JNum 7) (JBool True))) example_file)) =
     [\<lparr>r_id = Some ''/a.bin_op'', r_result = Some (RNum 7), r_error = None\<rparr>] \<and>
   int (length (content (w_file (onmessage [] (example_msg ''truncate'' (truncate_option (JNum 7) (JBool True))) example_file)))) = 7 \<and>
   posts (trace (onmessage [] (example_msg ''getSize'' None)
      (w_file (onmessage [] (example_msg ''truncate'' (truncate_option (JNum 7) (JBool True))) example_file)))) =
     [\<lparr>r_id = Some ''/a.bin_op'', r_result = Some (RNum 7), r_error = None\<rparr>] \<and>
   trace (onmessage [] (example_msg ''truncate'' (truncate_option (JNum 7) (JBool True))) example_file) =
     [Acquired, DidTruncate 7, DidFlush,
      Posted \<lparr>r_id = Some ''/a.bin_op'', r_result = Some (RNum 7), r_error = None\<rparr>, Closed] \<and>
   durable (w_file (onmessage [] (example_msg ''truncate'' (truncate_option (JNum 7) (JBool True))) example_file)) =
     content (w_file (onmessage [] (example_msg ''truncate'' (truncate_option (JNum 7) (JBool True))) example_file)) \<and>
   w_file (onmessage [] (example_msg ''truncate'' (truncate_option (JNum (- 1)) (JBool True))) example_file) = example_file \<and>
   posts (trace (onmessage [] (example_msg ''truncate'' (truncate_option (JNum (- 1)) (JBool True))) example_file)) =
     [\<lparr>r_id = Some ''/a.bin_op'', r_result = Some (RNum 0), r_error = None\<rparr>]"
proof -
  let ?m = "example_msg ''truncate'' (truncate_option (JNum 7) (JBool True))"
  let ?n = "example_msg ''truncate'' (truncate_option (JNum (- 1)) (JBool True))"
  let ?g = "example_msg ''getSize'' None"
  have m: "\<not> missing ?m" "m_command ?m = Some ''truncate''" "OpCreate \<notin> set []"
    and n: "\<not> missing ?n" "m_command ?n = Some ''truncate''"
    by (simp_all add: missing_def example_msg_def)
  have hm: "opt_size (option_of ?m) = JNum 7 \<and> (0::int) \<le> 7 \<and> OpTruncate \<notin> set [] \<and>
          (truthy (opt_flush (option_of ?m)) \<longrightarrow> OpFlush \<notin> set [])"
    and fl: "truthy (opt_flush (option_of ?m))"
    and hg: "\<not> missing ?g \<and> m_command ?g = Some ''getSize'' \<and> OpCreate \<notin> set [] \<and> OpGetSize \<notin> set []"
    and hn: "\<not> (\<exists>k. opt_size (option_of ?n) = JNum k \<and> 0 \<le> k)"
    by (simp_all add: missing_def example_msg_def option_of_def truncate_option_def)
  from truncate_semantics [OF m, where T = 7 and g = ?g and env' = "[]" and f = example_file] hm fl hg
  have a: "posts (trace (onmessage [] ?m example_file)) = [\<lparr>r_id = m_id ?m, r_result = Some (RNum 7), r_error = None\<rparr>] \<and>
      int (length (content (w_file (onmessage [] ?m example_file)))) = 7 \<and>
      posts (trace (onmessage [] ?g (w_file (onmessage [] ?m example_file)))) =
          [\<lparr>r_id = m_id ?g, r_result = Some (RNum 7), r_error = None\<rparr>] \<and>
      trace (onmessage [] ?m example_file) =
          [Acquired, DidTruncate (nat 7), DidFlush,
           Posted \<lparr>r_id = m_id ?m, r_result = Some (RNum 7), r_error = None\<rparr>, Closed] \<and>
      durable (w_file (onmessage [] ?m example_file)) = content (w_file (onmessage [] ?m example_file))"
    by blast
  from truncate_semantics [OF n m(3), where f = example_file] hn
  have b: "w_file (onmessage [] ?n example_file) = example_file \<and>
      posts (trace (onmessage [] ?n example_file)) = [\<lparr>r_id = m_id ?n, r_result = Some (RNum 0), r_error = None\<rparr>]"
    by blast
  from a b show ?thesis
    by (simp add: example_msg_def)
qed
section \<open>Properties of the coordinator\<close>

subsection \<open>Steps of the coordinator\<close>

lemma run_append: "run (xs @ ys) s = run ys (run xs s)"
  by (induction xs arbitrary: s) simp_all

lemma fan_out_map: "fan_out r cb = map (\<lambda>c. (c, outcome_of r)) cb"
  by (induction cb) simp_all

lemma startWorker_started:
  "\<not> postMessage_throws transfer \<Longrightarrow> startWorker m transfer s = (None, started m s)"
  by (cases "idleWorkers s = []"; cases "last (idleWorkers s)")
    (simp_all add: startWorker_def started_def picked_worker_def pop_def Let_def)

lemma startWorker_none: "startWorker m None s = (None, started m s)"
  by (rule startWorker_started) (simp add: postMessage_throws_def)

lemma startWorker_throws:
  "postMessage_throws transfer \<Longrightarrow>
   startWorker m transfer s =
     (Some TypeError,
      s\<lparr>idleWorkers := butlast (idleWorkers s),
        nextWorker := (if fst (pop (idleWorkers s)) = None then Suc (nextWorker s) else nextWorker s),
        activeWorkers := activeWorkers s @ [picked_worker s]\<rparr>)"
  by (cases "idleWorkers s = []"; cases "last (idleWorkers s)")
    (simp_all add: startWorker_def picked_worker_def pop_def Let_def)

lemma started_fields [simp]:
  "workerResponseHandler (started m s) = workerResponseHandler s"
  "awaiting (started m s) = awaiting s"
  "nextPromise (started m s) = nextPromise s"
  "delivered (started m s) = delivered s"
  "files (started m s) = files s"
  "timeout (started m s) = timeout s"
  "now (started m s) = now s"
  "terminated (started m s) = terminated s"
  "idleWorkers (started m s) = butlast (idleWorkers s)"
  "activeWorkers (started m s) = activeWorkers s @ [picked_worker s]"
  "job (started m s) = (job s)(picked_worker s \<mapsto> m)"
  "posted (started m s) = posted s @ [(picked_worker s, m)]"
  "nextWorker (started m s) =
     (if fst (pop (idleWorkers s)) = None then Suc (nextWorker s) else nextWorker s)"
  by (simp_all add: started_def)

lemma picked_worker_cong:
  "idleWorkers a = idleWorkers b \<Longrightarrow> nextWorker a = nextWorker b \<Longrightarrow> picked_worker a = picked_worker b"
  by (simp add: picked_worker_def split: option.splits)

lemma picked_worker_update [simp]:
  "picked_worker (nextPromise_update g1 s) = picked_worker s"
  "picked_worker (workerResponseHandler_update g2 s) = picked_worker s"
  "picked_worker (awaiting_update g3 s) = picked_worker s"
  "picked_worker (delivered_update g4 s) = picked_worker s"
  "picked_worker (job_update g5 s) = picked_worker s"
  "picked_worker (posted_update g6 s) = picked_worker s"
  "picked_worker (files_update g7 s) = picked_worker s"
  "picked_worker (timeout_update g8 s) = picked_worker s"
  "picked_worker (activeWorkers_update g9 s) = picked_worker s"
  by (simp_all add: picked_worker_def split: option.splits)

lemma picked_last: "idleWorkers t = ws @ [Some w] \<Longrightarrow> picked_worker t = w"
  by (simp add: picked_worker_def pop_def)

lemma command_of_fileHandle:
  "call_of e = Some (wd, f, operation) \<Longrightarrow> m_fileHandle (command_of e) = Some (file_path wd f)"
  by (simp add: command_of_def)

lemma command_of_id:
  "call_of e = Some (wd, f, operation) \<Longrightarrow> m_id (command_of e) = Some (request_id wd f operation)"
  by (simp add: command_of_def)

lemma shared_cases:
  assumes "call_of e = Some (wd, f, operation)" "shareable operation"
  shows "(e = GetFileSize wd f \<and> operation = ''getSize'') \<or>
         (\<exists>option. e = ReadFile wd f option \<and> operation = ''read'')"
  using assms by (cases e) (auto simp: shareable_def)

lemma exclusive_cases:
  assumes "call_of e = Some (wd, f, operation)" "exclusive operation"
  shows "(\<exists>option. e = TruncateFile wd f option \<and> operation = ''truncate'') \<or>
         (\<exists>buffer option. e = WriteFile wd f buffer option \<and> operation = ''write'')"
  using assms by (cases e) (auto simp: exclusive_def)

lemma shared_command:
  assumes "call_of e = Some (wd, f, operation)" "shareable operation"
  shows "command_of e =
     \<lparr>m_id = Some (wd @ ''/'' @ f @ ''_'' @ operation), m_command = Some operation,
      m_data = None, m_option = command_option e, m_fileHandle = Some (wd @ ''/'' @ f)\<rparr>"
    and "known_command (command_of e)" and "\<not> missing (command_of e)"
  using shared_cases [OF assms]
  by (auto simp: command_of_def request_id_def file_path_def known_command_def missing_def)

lemma exclusive_command:
  assumes "call_of e = Some (wd, f, operation)" "exclusive operation"
  shows "command_of e =
     \<lparr>m_id = Some (wd @ ''/'' @ f @ ''_'' @ operation), m_command = Some operation,
      m_data = command_data e, m_option = command_option e,
      m_fileHandle = Some (wd @ ''/'' @ f)\<rparr>"
    and "known_command (command_of e)" and "\<not> missing (command_of e)"
  using exclusive_cases [OF assms]
  by (auto simp: command_of_def request_id_def file_path_def known_command_def missing_def)

lemma shared_first:
  assumes "call_of e = Some (wd, f, operation)" "shareable operation"
    "workerResponseHandler s (request_id wd f operation) = None"
  shows "step e s =
     s\<lparr>nextPromise := Suc (nextPromise s),
       workerResponseHandler := (workerResponseHandler s)(request_id wd f operation \<mapsto> [nextPromise s]),
       awaiting := (awaiting s)(nextPromise s \<mapsto> suspended_of e)\<rparr>"
  using shared_cases [OF assms(1,2)] assms(3)
  by (elim disjE exE conjE) (simp_all add: getFileSize_def readFile_def Let_def)

lemma shared_later:
  assumes "call_of e = Some (wd, f, operation)" "shareable operation"
    "workerResponseHandler s (request_id wd f operation) = Some cb"
  shows "step e s =
     s\<lparr>nextPromise := Suc (nextPromise s),
       workerResponseHandler := (workerResponseHandler s)(request_id wd f operation \<mapsto> cb @ [nextPromise s])\<rparr>"
  using shared_cases [OF assms(1,2)] assms(3)
  by (elim disjE exE conjE) (simp_all add: getFileSize_def readFile_def Let_def)

lemma shared_run:
  assumes "\<forall>e \<in> set es. call_of e = Some (wd, f, operation)" "shareable operation"
    "workerResponseHandler s (request_id wd f operation) = Some cb"
  shows "run es s =
     s\<lparr>nextPromise := nextPromise s + length es,
       workerResponseHandler := (workerResponseHandler s)
         (request_id wd f operation \<mapsto> cb @ [nextPromise s ..< nextPromise s + length es])\<rparr>"
  using assms
proof (induction es arbitrary: s cb)
  case Nil
  then have "(workerResponseHandler s)(request_id wd f operation \<mapsto> cb) = workerResponseHandler s"
    by (intro fun_upd_idem) simp
  then show ?case by simp
next
  case (Cons e es)
  let ?s1 = "s\<lparr>nextPromise := Suc (nextPromise s),
       workerResponseHandler := (workerResponseHandler s)(request_id wd f operation \<mapsto> cb @ [nextPromise s])\<rparr>"
  have 1: "step e s = ?s1"
    using Cons.prems by (simp add: shared_later)
  have 2: "run es ?s1 = ?s1\<lparr>nextPromise := nextPromise ?s1 + length es,
       workerResponseHandler := (workerResponseHandler ?s1)
         (request_id wd f operation \<mapsto> (cb @ [nextPromise s]) @ [nextPromise ?s1 ..< nextPromise ?s1 + length es])\<rparr>"
    using Cons.prems by (intro Cons.IH) simp_all
  have 3: "[nextPromise s ..< Suc (nextPromise s + length es)] =
      nextPromise s # [Suc (nextPromise s) ..< Suc (nextPromise s + length es)]"
    by (simp add: upt_conv_Cons del: upt_Suc)
  have "run (e # es) s = run es ?s1"
    by (simp add: 1)
  also note 2
  also have "?s1\<lparr>nextPromise := nextPromise ?s1 + length es,
       workerResponseHandler := (workerResponseHandler ?s1)
         (request_id wd f operation \<mapsto> (cb @ [nextPromise s]) @ [nextPromise ?s1 ..< nextPromise ?s1 + length es])\<rparr>
     = s\<lparr>nextPromise := nextPromise s + length (e # es),
       workerResponseHandler := (workerResponseHandler s)
         (request_id wd f operation \<mapsto> cb @ [nextPromise s ..< nextPromise s + length (e # es)])\<rparr>"
    by (rule sys.equality; simp add: 3 del: upt_Suc)
  finally show ?case .
qed

lemma resume_shared:
  assumes "call_of e = Some (wd, f, operation)" "shareable operation"
    "awaiting s c = Some (suspended_of e)" "files s (file_path wd f) = Some fl"
  shows "step (Resume c) s = started (command_of e) (s\<lparr>awaiting := (awaiting s)(c := None)\<rparr>)"
  using shared_cases [OF assms(1,2)] assms(3,4)
  by (elim disjE exE conjE)
    (simp_all add: resume_def getFileHandle_def command_of_def startWorker_none)

lemma resume_exclusive:
  assumes "call_of e = Some (wd, f, operation)" "exclusive operation"
    "awaiting s c = Some (suspended_of e)" "files s (file_path wd f) = Some fl"
    "postable e"
  shows "step (Resume c) s =
     (started (command_of e) (s\<lparr>awaiting := (awaiting s)(c := None)\<rparr>))
       \<lparr>workerResponseHandler := (workerResponseHandler s)(request_id wd f operation \<mapsto> [c])\<rparr>"
  using exclusive_cases [OF assms(1,2)]
proof (elim disjE exE conjE)
  fix option
  assume "e = TruncateFile wd f option" "operation = ''truncate''"
  with assms(3,4) show ?thesis
    by (simp add: resume_def getFileHandle_def command_of_def startWorker_none)
next
  fix buffer option
  assume "e = WriteFile wd f buffer option" "operation = ''write''"
  with assms(3,4,5) show ?thesis
    by (cases option)
      (simp_all add: resume_def getFileHandle_def command_of_def startWorker_none
        startWorker_started postable_def)
qed

lemma resume_untransferable:
  assumes "call_of e = Some (wd, f, operation)" "exclusive operation"
    "awaiting s c = Some (suspended_of e)" "files s (file_path wd f) = Some fl"
    "\<not> postable e"
  shows "step (Resume c) s =
     s\<lparr>awaiting := (awaiting s)(c := None),
       idleWorkers := butlast (idleWorkers s),
       nextWorker := (if fst (pop (idleWorkers s)) = None then Suc (nextWorker s) else nextWorker s),
       activeWorkers := activeWorkers s @ [picked_worker s],
       delivered := delivered s @ [(c, Rejected TypeError)]\<rparr>"
  using exclusive_cases [OF assms(1,2)]
proof (elim disjE exE conjE)
  fix option
  assume "e = TruncateFile wd f option" "operation = ''truncate''"
  with assms(5) show ?thesis
    by (simp add: postable_def postMessage_throws_def)
next
  fix buffer option
  assume e: "e = WriteFile wd f buffer option" "operation = ''write''"
  show ?thesis
  proof (cases option)
    case None
    with e assms(5) show ?thesis
      by (simp add: postable_def postMessage_throws_def)
  next
    case (Some x)
    with e assms(5) have t: "truthy (w_transfer x)" "postMessage_throws (Some [w_transfer x])"
      by (auto simp: postable_def postMessage_throws_def split: if_splits)
    show ?thesis
      using e Some assms(3,4) t
      by (simp add: resume_def getFileHandle_def startWorker_throws)
  qed
qed

lemma worker_done_answered:
  assumes "job s w = Some m" "m_fileHandle m = Some p" "files s p = Some fl"
    "posts (trace (onmessage env m fl)) = [r]"
    "workerResponseHandler s (key_of (r_id r)) = Some cb"
  shows "step (WorkerDone w env) s =
     clearIdleWorkers (completeWork w
       (s\<lparr>job := (job s)(w := None),
          files := (files s)(p \<mapsto> w_file (onmessage env m fl)),
          delivered := delivered s @ fan_out r cb,
          workerResponseHandler := (workerResponseHandler s)(key_of (r_id r) := None)\<rparr>))"
  using assms
  by (simp add: worker_done_def target_def worker_onmessage_def handleWorkerResponse_def)

lemma exclusive_busy:
  assumes "call_of e = Some (wd, f, operation)" "exclusive operation"
    "workerResponseHandler s (request_id wd f operation) = Some cb"
  shows "step e s =
     s\<lparr>nextPromise := Suc (nextPromise s),
       delivered := delivered s @ [(nextPromise s, Rejected (busy operation))]\<rparr>"
  using exclusive_cases [OF assms(1,2)] assms(3)
  by (elim disjE exE conjE) (simp_all add: truncateFile_def writeFile_def Let_def busy_def)

lemma exclusive_free:
  assumes "call_of e = Some (wd, f, operation)" "exclusive operation"
    "workerResponseHandler s (request_id wd f operation) = None"
  shows "step e s =
     s\<lparr>nextPromise := Suc (nextPromise s),
       awaiting := (awaiting s)(nextPromise s \<mapsto> suspended_of e)\<rparr>"
  using exclusive_cases [OF assms(1,2)] assms(3)
  by (elim disjE exE conjE) (simp_all add: truncateFile_def writeFile_def Let_def)

subsection \<open>Coalescing of size queries and reads\<close>

lemma upt_three:
  "[c] @ [Suc c ..< Suc c + n1] @ [Suc c + n1 ..< Suc c + n1 + n2] = [c ..< c + Suc (n1 + n2)]"
proof -
  have "[Suc c ..< Suc c + n1] @ [Suc c + n1 ..< Suc c + n1 + n2] = [Suc c ..< Suc c + (n1 + n2)]"
    using upt_add_eq_append [of "Suc c" "Suc c + n1" n2]
    by (simp add: add.assoc del: upt_Suc)
  then show ?thesis
    by (simp add: upt_conv_Cons del: upt_Suc)
qed

lemma upt_three_normal:
  "c # [Suc c ..< Suc (c + n1)] @ [Suc (c + n1) ..< Suc (c + n1 + n2)] =
   [c ..< Suc (c + (n1 + n2))]"
  using upt_three [of c n1 n2] by (simp del: upt_Suc)

lemma coalesce:
  assumes e0: "call_of e0 = Some (wd, f, operation)"
    and es1: "\<forall>e \<in> set es1. call_of e = Some (wd, f, operation)"
    and es2: "\<forall>e \<in> set es2. call_of e = Some (wd, f, operation)"
    and sh: "shareable operation"
    and free: "workerResponseHandler s (request_id wd f operation) = None"
    and fl: "files s (file_path wd f) = Some fl"
  shows "\<exists>r. posts (trace (onmessage env (command_of e0) fl)) = [r] \<and>
           run (e0 # es1 @ Resume (nextPromise s) # es2) s =
             s\<lparr>nextPromise := nextPromise s + Suc (length es1 + length es2),
               workerResponseHandler := (workerResponseHandler s)
                 (request_id wd f operation \<mapsto>
                    [nextPromise s ..< nextPromise s + Suc (length es1 + length es2)]),
               awaiting := (awaiting s)(nextPromise s := None),
               idleWorkers := butlast (idleWorkers s),
               nextWorker := (if fst (pop (idleWorkers s)) = None then Suc (nextWorker s)
                              else nextWorker s),
               activeWorkers := activeWorkers s @ [picked_worker s],
               job := (job s)(picked_worker s \<mapsto> command_of e0),
               posted := posted s @ [(picked_worker s, command_of e0)]\<rparr> \<and>
           run (e0 # es1 @ Resume (nextPromise s) # es2 @ [WorkerDone (picked_worker s) env]) s =
             s\<lparr>nextPromise := nextPromise s + Suc (length es1 + length es2),
               awaiting := (awaiting s)(nextPromise s := None),
               idleWorkers := butlast (idleWorkers s) @ [Some (picked_worker s)],
               nextWorker := (if fst (pop (idleWorkers s)) = None then Suc (nextWorker s)
                              else nextWorker s),
               activeWorkers := remove1 (picked_worker s) (activeWorkers s @ [picked_worker s]),
               job := (job s)(picked_worker s := None),
               posted := posted s @ [(picked_worker s, command_of e0)],
               delivered := delivered s @
                 map (\<lambda>c. (c, case r_error r of Some e \<Rightarrow> Rejected e
                                | None \<Rightarrow> Resolved (r_result r)))
                   [nextPromise s ..< nextPromise s + Suc (length es1 + length es2)],
               files := (files s)(file_path wd f \<mapsto> w_file (onmessage env (command_of e0) fl)),
               timeout := Some (now s + 10000)\<rparr>"
proof -
  let ?i = "request_id wd f operation"
  let ?c = "nextPromise s"
  let ?w = "picked_worker s"
  let ?m = "command_of e0"
  let ?K = "Suc (length es1 + length es2)"
  define s1 where "s1 = step e0 s"
  define s2 where "s2 = run es1 s1"
  define s3 where "s3 = step (Resume ?c) s2"
  define s4 where "s4 = run es2 s3"
  define s5 where "s5 = step (WorkerDone ?w env) s4"
  have run4: "run (e0 # es1 @ Resume ?c # es2) s = s4"
    by (simp add: run_append s1_def s2_def s3_def s4_def)
  have run5: "run (e0 # es1 @ Resume ?c # es2 @ [WorkerDone ?w env]) s = s5"
    by (simp add: run_append s1_def s2_def s3_def s4_def s5_def)
  have 1: "s1 = s\<lparr>nextPromise := Suc ?c,
       workerResponseHandler := (workerResponseHandler s)(?i \<mapsto> [?c]),
       awaiting := (awaiting s)(?c \<mapsto> suspended_of e0)\<rparr>"
    unfolding s1_def using e0 sh free by (rule shared_first)
  have w1: "workerResponseHandler s1 ?i = Some [?c]"
    by (simp add: 1)
  have 2: "s2 = s1\<lparr>nextPromise := nextPromise s1 + length es1,
       workerResponseHandler := (workerResponseHandler s1)
         (?i \<mapsto> [?c] @ [nextPromise s1 ..< nextPromise s1 + length es1])\<rparr>"
    unfolding s2_def using es1 sh w1 by (rule shared_run)
  have a2: "awaiting s2 ?c = Some (suspended_of e0)" and f2: "files s2 (file_path wd f) = Some fl"
    by (simp_all add: 2 1 fl)
  have 3: "s3 = started ?m (s2\<lparr>awaiting := (awaiting s2)(?c := None)\<rparr>)"
    unfolding s3_def using e0 sh a2 f2 by (rule resume_shared)
  have w3: "workerResponseHandler s3 ?i = Some ([?c] @ [Suc ?c ..< Suc ?c + length es1])"
    by (simp add: 3 2 1 del: upt_Suc)
  have 4: "s4 = s3\<lparr>nextPromise := nextPromise s3 + length es2,
       workerResponseHandler := (workerResponseHandler s3)
         (?i \<mapsto> ([?c] @ [Suc ?c ..< Suc ?c + length es1]) @ [nextPromise s3 ..< nextPromise s3 + length es2])\<rparr>"
    unfolding s4_def using es2 sh w3 by (rule shared_run)
  have n3: "nextPromise s3 = Suc ?c + length es1"
    by (simp add: 3 2 1)
  have S4: "s4 = s\<lparr>nextPromise := ?c + ?K,
               workerResponseHandler := (workerResponseHandler s)(?i \<mapsto> [?c ..< ?c + ?K]),
               awaiting := (awaiting s)(?c := None),
               idleWorkers := butlast (idleWorkers s),
               nextWorker := (if fst (pop (idleWorkers s)) = None then Suc (nextWorker s)
                              else nextWorker s),
               activeWorkers := activeWorkers s @ [?w],
               job := (job s)(?w \<mapsto> ?m),
               posted := posted s @ [(?w, ?m)]\<rparr>"
    unfolding 4 n3
    by (rule sys.equality; simp add: 3 2 1 upt_three_normal del: upt_Suc)
  from onmessage_posts [of ?m env fl] shared_command(2) [OF e0 sh]
  obtain r where r: "posts (trace (onmessage env ?m fl)) = [r]" and rid: "r_id r = m_id ?m"
    by auto
  have key: "key_of (r_id r) = ?i"
    using e0 by (simp add: rid command_of_id key_of_def)
  have j4: "job s4 ?w = Some ?m" and f4: "files s4 (file_path wd f) = Some fl"
    and w4: "workerResponseHandler s4 (key_of (r_id r)) = Some [?c ..< ?c + ?K]"
    unfolding key by (simp_all add: S4 fl del: upt_Suc)
  have 5: "s5 = clearIdleWorkers (completeWork ?w
       (s4\<lparr>job := (job s4)(?w := None),
          files := (files s4)(file_path wd f \<mapsto> w_file (onmessage env ?m fl)),
          delivered := delivered s4 @ fan_out r ([?c ..< ?c + ?K]),
          workerResponseHandler := (workerResponseHandler s4)(key_of (r_id r) := None)\<rparr>))"
    unfolding s5_def
    using j4 command_of_fileHandle [OF e0] f4 r w4 by (rule worker_done_answered)
  have idem: "(workerResponseHandler s)(?i := None) = workerResponseHandler s"
    using free by (intro fun_upd_idem) simp
  have S5: "s5 = s\<lparr>nextPromise := ?c + ?K,
               awaiting := (awaiting s)(?c := None),
               idleWorkers := butlast (idleWorkers s) @ [Some ?w],
               nextWorker := (if fst (pop (idleWorkers s)) = None then Suc (nextWorker s)
                              else nextWorker s),
               activeWorkers := remove1 ?w (activeWorkers s @ [?w]),
               job := (job s)(?w := None),
               posted := posted s @ [(?w, ?m)],
               delivered := delivered s @
                 map (\<lambda>c. (c, case r_error r of Some e \<Rightarrow> Rejected e
                                | None \<Rightarrow> Resolved (r_result r)))
                   [?c ..< ?c + ?K],
               files := (files s)(file_path wd f \<mapsto> w_file (onmessage env ?m fl)),
               timeout := Some (now s + 10000)\<rparr>"
    unfolding 5 key
    by (rule sys.equality;
        simp add: S4 clearIdleWorkers_def completeWork_def fan_out_map outcome_of_def idem
          del: upt_Suc)
  show ?thesis
    unfolding run4 run5
    by (rule exI [of _ r]) (intro conjI r S4 S5)
qed

lemmas system_defs = init_def example_files_def getFileSize_def readFile_def truncateFile_def
  writeFile_def request_id_def file_path_def resume_def getFileHandle_def startWorker_def pop_def
  postMessage_throws_def
  worker_done_def target_def worker_onmessage_def handleWorkerResponse_def key_of_def
  outcome_of_def completeWork_def clearIdleWorkers_def timer_callback_def set_length_1_def
  truncate_option_def read_option_def example_file_def Let_def




subsection \<open>The offset of a coalesced read\<close>

lemma read_command_facts:
  "\<not> missing (command_of (ReadFile wd f option))"
  "m_command (command_of (ReadFile wd f option)) = Some ''read''"
  "option_of (command_of (ReadFile wd f (Some o1))) = o1"
  "m_id (command_of (ReadFile wd f option)) = Some (request_id wd f ''read'')"
  by (simp_all add: missing_def command_of_def request_id_def option_of_def)

lemma read_command:
  "command_of (ReadFile wd f option) =
     \<lparr>m_id = Some (wd @ ''/'' @ f @ ''_read''), m_command = Some ''read'', m_data = None,
      m_option = option, m_fileHandle = Some (wd @ ''/'' @ f)\<rparr>"
  by (simp add: command_of_def request_id_def file_path_def)

lemma read_key_path:
  "(wd' @ ''/'' @ f' @ ''_read'' = wd @ ''/'' @ f @ ''_read'') = (wd' @ ''/'' @ f' = wd @ ''/'' @ f)"
proof -
  have "(wd' @ ''/'' @ f') @ ''_read'' = (wd @ ''/'' @ f) @ ''_read'' \<longleftrightarrow>
        wd' @ ''/'' @ f' = wd @ ''/'' @ f"
    by (rule append_same_eq)
  then show ?thesis
    by simp
qed

lemma read_key_not_getSize:
  "wd @ ''/'' @ f @ ''_getSize'' \<noteq> wd @ ''/'' @ f @ ''_read''"
  by simp

lemma shared_other_key:
  assumes "call_of e = Some (wd', f', operation)" "shareable operation"
    "request_id wd' f' operation \<noteq> k"
  shows "workerResponseHandler (step e t) k = workerResponseHandler t k"
proof (cases "workerResponseHandler t (request_id wd' f' operation)")
  case None
  from shared_first [OF assms(1,2) None] assms(3) show ?thesis
    by simp
next
  case (Some cb)
  from shared_later [OF assms(1,2) Some] assms(3) show ?thesis
    by simp
qed

lemma read_joined:
  assumes free: "workerResponseHandler s (request_id wd f ''read'') = None"
  shows "run [ReadFile wd f o1, ReadFile wd f o2] s =
     s\<lparr>nextPromise := Suc (Suc (nextPromise s)),
       workerResponseHandler := (workerResponseHandler s)
         (request_id wd f ''read'' \<mapsto> [nextPromise s, Suc (nextPromise s)]),
       awaiting := (awaiting s)(nextPromise s \<mapsto> suspended_of (ReadFile wd f o1))\<rparr>"
proof -
  let ?e1 = "ReadFile wd f o1" and ?e2 = "ReadFile wd f o2"
  have c: "call_of ?e1 = Some (wd, f, ''read'')" "call_of ?e2 = Some (wd, f, ''read'')"
    "shareable ''read''"
    by (simp_all add: shareable_def)
  let ?t = "s\<lparr>nextPromise := Suc (nextPromise s),
       workerResponseHandler := (workerResponseHandler s)(request_id wd f ''read'' \<mapsto> [nextPromise s]),
       awaiting := (awaiting s)(nextPromise s \<mapsto> suspended_of ?e1)\<rparr>"
  have s1: "step ?e1 s = ?t"
    using c(1) c(3) free by (rule shared_first)
  have t: "workerResponseHandler ?t (request_id wd f ''read'') = Some [nextPromise s]"
    by simp
  have s2: "step ?e2 ?t = ?t\<lparr>nextPromise := Suc (nextPromise ?t),
       workerResponseHandler := (workerResponseHandler ?t)
         (request_id wd f ''read'' \<mapsto> [nextPromise s] @ [nextPromise ?t])\<rparr>"
    using c(2) c(3) t by (rule shared_later)
  have "run [?e1, ?e2] s = step ?e2 (step ?e1 s)"
    by (simp only: run.simps)
  also have "\<dots> = step ?e2 ?t"
    by (simp only: s1)
  also note s2
  finally show ?thesis
    by simp
qed

lemma read_coalesced:
  assumes free: "workerResponseHandler s (request_id wd f ''read'') = None"
    and fl: "files s (file_path wd f) = Some fl"
    and at: "opt_at o1 = Some k1" "0 \<le> k1" "k1 \<le> int (length (content fl))"
    and env: "OpCreate \<notin> set env" "OpGetSize \<notin> set env" "OpRead \<notin> set env"
    and es: "\<forall>e \<in> set es1. call_of e = Some (wd, f, ''read'')"
      "\<forall>e \<in> set es2. call_of e = Some (wd, f, ''read'')"
      "length es1 + length es2 = 1"
  shows "run (ReadFile wd f (Some o1) # es1 @ Resume (nextPromise s) # es2 @
              [WorkerDone (picked_worker s) env]) s =
     s\<lparr>nextPromise := Suc (Suc (nextPromise s)),
       awaiting := (awaiting s)(nextPromise s := None),
       idleWorkers := butlast (idleWorkers s) @ [Some (picked_worker s)],
       nextWorker := (if fst (pop (idleWorkers s)) = None then Suc (nextWorker s)
                      else nextWorker s),
       activeWorkers := remove1 (picked_worker s) (activeWorkers s @ [picked_worker s]),
       job := (job s)(picked_worker s := None),
       posted := posted s @ [(picked_worker s, command_of (ReadFile wd f (Some o1)))],
       delivered := delivered s @
         [(nextPromise s, Resolved (Some (RBuf (drop (nat k1) (content fl))))),
          (Suc (nextPromise s), Resolved (Some (RBuf (drop (nat k1) (content fl)))))],
       timeout := Some (now s + 10000)\<rparr>"
proof -
  let ?e1 = "ReadFile wd f (Some o1)"
  have c: "call_of ?e1 = Some (wd, f, ''read'')" "shareable ''read''"
    by (simp_all add: shareable_def)
  have w: "onmessage env (command_of ?e1) fl =
        \<lparr>w_file = fl, accessHandle = True,
         trace = [Acquired, DidGetSize, DidRead,
                  Posted \<lparr>r_id = m_id (command_of ?e1),
                          r_result = Some (RBuf (drop (nat k1) (content fl))), r_error = None\<rparr>,
                  Closed]\<rparr>"
    using at env by (intro onmessage_read_ok) (simp_all add: read_command_facts)
  then have p: "posts (trace (onmessage env (command_of ?e1) fl)) =
      [\<lparr>r_id = m_id (command_of ?e1), r_result = Some (RBuf (drop (nat k1) (content fl))),
        r_error = None\<rparr>]"
    by simp
  have f: "(files s)(file_path wd f \<mapsto> w_file (onmessage env (command_of ?e1) fl)) = files s"
    unfolding w using fl by (intro fun_upd_idem) simp
  have u: "[nextPromise s ..< Suc (Suc (nextPromise s))] = [nextPromise s, Suc (nextPromise s)]"
    by (simp add: upt_conv_Cons del: upt_Suc)
  from coalesce [OF c(1) es(1) es(2) c(2) free fl, of env]
  obtain r where r: "posts (trace (onmessage env (command_of ?e1) fl)) = [r]"
    and fin: "run (?e1 # es1 @ Resume (nextPromise s) # es2 @ [WorkerDone (picked_worker s) env]) s =
            s\<lparr>nextPromise := nextPromise s + Suc (length es1 + length es2),
              awaiting := (awaiting s)(nextPromise s := None),
              idleWorkers := butlast (idleWorkers s) @ [Some (picked_worker s)],
              nextWorker := (if fst (pop (idleWorkers s)) = None then Suc (nextWorker s)
                             else nextWorker s),
              activeWorkers := remove1 (picked_worker s) (activeWorkers s @ [picked_worker s]),
              job := (job s)(picked_worker s := None),
              posted := posted s @ [(picked_worker s, command_of ?e1)],
              delivered := delivered s @
                map (\<lambda>c. (c, case r_error r of Some e \<Rightarrow> Rejected e
                               | None \<Rightarrow> Resolved (r_result r)))
                  [nextPromise s ..< nextPromise s + Suc (length es1 + length es2)],
              files := (files s)(file_path wd f \<mapsto> w_file (onmessage env (command_of ?e1) fl)),
              timeout := Some (now s + 10000)\<rparr>"
    by blast
  from r p have r': "r = \<lparr>r_id = m_id (command_of ?e1),
      r_result = Some (RBuf (drop (nat k1) (content fl))), r_error = None\<rparr>"
    by simp
  show ?thesis
    unfolding fin f
    by (rule sys.equality; simp add: es(3) r' u del: upt_Suc)
qed

text \<open>
  Claim C10. \<^verbatim>\<open>readFile\<close> requests meet under the id
  \<^verbatim>\<open>${workingDirectory}/${fileName}_read\<close>, in which the option has no part. Let a first
  \<^verbatim>\<open>readFile\<close> with \<open>at = k1\<close> arrive when the table has no entry under that id. A
  second \<^verbatim>\<open>readFile\<close> for the same working directory and file name, whatever its
  option, joins the entry of the first and leaves no continuation of its own. Whether it
  arrives before or after the first resumes from its \<^verbatim>\<open>await\<close>, only the first call's
  command, with the first call's option, is posted, and when no method faults and
  \<open>0 \<le> k1 \<le> S\<close> both callers are resolved with the file's bytes from \<open>k1\<close> on; the whole
  final state is given. A \<^verbatim>\<open>readFile\<close> for another path and a \<^verbatim>\<open>getFileSize\<close> for the
  same file do not join the entry.
\<close>

theorem read_offset_discarded:
  assumes "workerResponseHandler s (wd @ ''/'' @ f @ ''_read'') = None"
    and "files s (wd @ ''/'' @ f) = Some fl"
    and "opt_at o1 = Some k1" and "0 \<le> k1" and "k1 \<le> int (length (content fl))"
    and "OpCreate \<notin> set env" and "OpGetSize \<notin> set env" and "OpRead \<notin> set env"
  shows
    "let key = wd @ ''/'' @ f @ ''_read'';
         c0 = nextPromise s;
         w = picked_worker s;
         bytes_from_k1 = Resolved (Some (RBuf (drop (nat k1) (content fl))));
         final = s\<lparr>nextPromise := Suc (Suc c0),
                   awaiting := (awaiting s)(c0 := None),
                   idleWorkers := butlast (idleWorkers s) @ [Some w],
                   nextWorker := (if fst (pop (idleWorkers s)) = None then Suc (nextWorker s)
                                  else nextWorker s),
                   activeWorkers := remove1 w (activeWorkers s @ [w]),
                   job := (job s)(w := None),
                   posted := posted s @
                     [(w, \<lparr>m_id = Some key, m_command = Some ''read'', m_data = None,
                           m_option = Some o1, m_fileHandle = Some (wd @ ''/'' @ f)\<rparr>)],
                   delivered := delivered s @ [(c0, bytes_from_k1), (Suc c0, bytes_from_k1)],
                   timeout := Some (now s + 10000)\<rparr>
     in run [ReadFile wd f (Some o1), ReadFile wd f o2] s =
          s\<lparr>nextPromise := Suc (Suc c0),
            workerResponseHandler := (workerResponseHandler s)(key \<mapsto> [c0, Suc c0]),
            awaiting := (awaiting s)(c0 \<mapsto> K_readFile key (wd @ ''/'' @ f) (Some o1))\<rparr> \<and>
        run [ReadFile wd f (Some o1), ReadFile wd f o2, Resume c0, WorkerDone w env] s = final \<and>
        run [ReadFile wd f (Some o1), Resume c0, ReadFile wd f o2, WorkerDone w env] s = final \<and>
        (\<forall>wd' f' o'. wd' @ ''/'' @ f' \<noteq> wd @ ''/'' @ f \<longrightarrow>
           workerResponseHandler (run [ReadFile wd f (Some o1), ReadFile wd' f' o'] s) key =
             Some [c0]) \<and>
        workerResponseHandler (run [ReadFile wd f (Some o1), GetFileSize wd f] s) key = Some [c0]"
proof -
  let ?e1 = "ReadFile wd f (Some o1)" and ?e2 = "ReadFile wd f o2"
  let ?key = "wd @ ''/'' @ f @ ''_read''"
  have free: "workerResponseHandler s (request_id wd f ''read'') = None"
    and fl: "files s (file_path wd f) = Some fl"
    using assms(1,2) by (simp_all add: request_id_def file_path_def)
  have c: "\<forall>e \<in> set [?e2]. call_of e = Some (wd, f, ''read'')"
    "\<forall>e \<in> set []. call_of e = Some (wd, f, ''read'')"
    "length [?e2] + length ([] :: event list) = 1" "length ([] :: event list) + length [?e2] = 1"
    by simp_all
  have joined: "run [?e1, ?e2] s =
      s\<lparr>nextPromise := Suc (Suc (nextPromise s)),
        workerResponseHandler := (workerResponseHandler s)
          (?key \<mapsto> [nextPromise s, Suc (nextPromise s)]),
        awaiting := (awaiting s)(nextPromise s \<mapsto> K_readFile ?key (wd @ ''/'' @ f) (Some o1))\<rparr>"
    using read_joined [OF free, of "Some o1" o2]
    by (simp only: suspended_of.simps request_id_def file_path_def append.simps)
  have before: "run [?e1, ?e2, Resume (nextPromise s), WorkerDone (picked_worker s) env] s =
     s\<lparr>nextPromise := Suc (Suc (nextPromise s)),
       awaiting := (awaiting s)(nextPromise s := None),
       idleWorkers := butlast (idleWorkers s) @ [Some (picked_worker s)],
       nextWorker := (if fst (pop (idleWorkers s)) = None then Suc (nextWorker s)
                      else nextWorker s),
       activeWorkers := remove1 (picked_worker s) (activeWorkers s @ [picked_worker s]),
       job := (job s)(picked_worker s := None),
       posted := posted s @
         [(picked_worker s, \<lparr>m_id = Some ?key, m_command = Some ''read'', m_data = None,
                             m_option = Some o1, m_fileHandle = Some (wd @ ''/'' @ f)\<rparr>)],
       delivered := delivered s @
         [(nextPromise s, Resolved (Some (RBuf (drop (nat k1) (content fl))))),
          (Suc (nextPromise s), Resolved (Some (RBuf (drop (nat k1) (content fl)))))],
       timeout := Some (now s + 10000)\<rparr>"
    using read_coalesced [OF free fl assms(3-8) c(1) c(2) c(3)]
    by (simp only: read_command append.simps)
  have after: "run [?e1, Resume (nextPromise s), ?e2, WorkerDone (picked_worker s) env] s =
     s\<lparr>nextPromise := Suc (Suc (nextPromise s)),
       awaiting := (awaiting s)(nextPromise s := None),
       idleWorkers := butlast (idleWorkers s) @ [Some (picked_worker s)],
       nextWorker := (if fst (pop (idleWorkers s)) = None then Suc (nextWorker s)
                      else nextWorker s),
       activeWorkers := remove1 (picked_worker s) (activeWorkers s @ [picked_worker s]),
       job := (job s)(picked_worker s := None),
       posted := posted s @
         [(picked_worker s, \<lparr>m_id = Some ?key, m_command = Some ''read'', m_data = None,
                             m_option = Some o1, m_fileHandle = Some (wd @ ''/'' @ f)\<rparr>)],
       delivered := delivered s @
         [(nextPromise s, Resolved (Some (RBuf (drop (nat k1) (content fl))))),
          (Suc (nextPromise s), Resolved (Some (RBuf (drop (nat k1) (content fl)))))],
       timeout := Some (now s + 10000)\<rparr>"
    using read_coalesced [OF free fl assms(3-8) c(2) c(1) c(4)]
    by (simp only: read_command append.simps)
  have s1: "step ?e1 s = s\<lparr>nextPromise := Suc (nextPromise s),
       workerResponseHandler := (workerResponseHandler s)(request_id wd f ''read'' \<mapsto> [nextPromise s]),
       awaiting := (awaiting s)(nextPromise s \<mapsto> suspended_of ?e1)\<rparr>"
    using free by (intro shared_first) (simp_all add: shareable_def)
  have alone: "workerResponseHandler (step ?e1 s) ?key = Some [nextPromise s]"
    unfolding s1 by (simp add: request_id_def)
  have other: "workerResponseHandler (run [?e1, ReadFile wd' f' o'] s) ?key = Some [nextPromise s]"
    if "wd' @ ''/'' @ f' \<noteq> wd @ ''/'' @ f" for wd' f' o'
  proof -
    have "request_id wd' f' ''read'' \<noteq> ?key"
      using that by (simp only: request_id_def read_key_path) simp
    then have "workerResponseHandler (step (ReadFile wd' f' o') (step ?e1 s)) ?key =
        workerResponseHandler (step ?e1 s) ?key"
      by (intro shared_other_key [where wd' = wd' and f' = f' and operation = "''read''"])
        (simp_all add: shareable_def)
    with alone show ?thesis
      by (simp only: run.simps)
  qed
  have size: "workerResponseHandler (run [?e1, GetFileSize wd f] s) ?key = Some [nextPromise s]"
  proof -
    have "request_id wd f ''getSize'' \<noteq> ?key"
      by (simp add: request_id_def)
    then have "workerResponseHandler (step (GetFileSize wd f) (step ?e1 s)) ?key =
        workerResponseHandler (step ?e1 s) ?key"
      by (intro shared_other_key [where wd' = wd and f' = f and operation = "''getSize''"])
        (simp_all add: shareable_def)
    with alone show ?thesis
      by (simp only: run.simps)
  qed
  show ?thesis
    unfolding Let_def
    using other by (intro conjI allI impI joined before after size)
qed

text \<open>
  A read of \<^verbatim>\<open>/docs/a.bin\<close> from offset 2 of its five bytes, joined by a read from
  offset 4: both callers receive the three bytes from offset 2. A read of \<^verbatim>\<open>/a.bin\<close>
  does not join.
\<close>

theorem read_offset_discarded_witness:
  "workerResponseHandler (run [ReadFile ''/docs'' ''a.bin'' (Some (read_option 2)),
        ReadFile ''/docs'' ''a.bin'' (Some (read_option 4))] (init example_tree))
     ''/docs/a.bin_read'' = Some [0, 1] \<and>
   awaiting (run [ReadFile ''/docs'' ''a.bin'' (Some (read_option 2)),
        ReadFile ''/docs'' ''a.bin'' (Some (read_option 4))] (init example_tree)) 1 = None \<and>
   delivered (run [ReadFile ''/docs'' ''a.bin'' (Some (read_option 2)),
        ReadFile ''/docs'' ''a.bin'' (Some (read_option 4)), Resume 0, WorkerDone 0 []]
        (init example_tree)) =
     [(0, Resolved (Some (RBuf [30, 40, 50]))), (1, Resolved (Some (RBuf [30, 40, 50])))] \<and>
   delivered (run [ReadFile ''/docs'' ''a.bin'' (Some (read_option 2)), Resume 0,
        ReadFile ''/docs'' ''a.bin'' (Some (read_option 4)), WorkerDone 0 []]
        (init example_tree)) =
     [(0, Resolved (Some (RBuf [30, 40, 50]))), (1, Resolved (Some (RBuf [30, 40, 50])))] \<and>
   posted (run [ReadFile ''/docs'' ''a.bin'' (Some (read_option 2)),
        ReadFile ''/docs'' ''a.bin'' (Some (read_option 4)), Resume 0, WorkerDone 0 []]
        (init example_tree)) =
     [(0, \<lparr>m_id = Some ''/docs/a.bin_read'', m_command = Some ''read'', m_data = None,
           m_option = Some (read_option 2), m_fileHandle = Some ''/docs/a.bin''\<rparr>)] \<and>
   workerResponseHandler (run [ReadFile ''/docs'' ''a.bin'' (Some (read_option 2)),
        ReadFile [] ''a.bin'' (Some (read_option 4))] (init example_tree))
     ''/docs/a.bin_read'' = Some [0] \<and>
   workerResponseHandler (run [ReadFile ''/docs'' ''a.bin'' (Some (read_option 2)),
        GetFileSize ''/docs'' ''a.bin''] (init example_tree))
     ''/docs/a.bin_read'' = Some [0]"
proof -
  let ?s = "init example_tree"
  have h: "workerResponseHandler ?s (''/docs'' @ ''/'' @ ''a.bin'' @ ''_read'') = None"
    "files ?s (''/docs'' @ ''/'' @ ''a.bin'') = Some example_file"
    "opt_at (read_option 2) = Some 2" "(0::int) \<le> 2" "2 \<le> int (length (content example_file))"
    "OpCreate \<notin> set []" "OpGetSize \<notin> set []" "OpRead \<notin> set []"
    by (simp_all add: init_def example_tree_def read_option_def example_file_def)
  have n: "nextPromise ?s = 0" "picked_worker ?s = 0" "posted ?s = []" "delivered ?s = []"
    "awaiting ?s = (\<lambda>c. None)"
    by (simp_all add: init_def picked_worker_def pop_def)
  have d: "drop 2 (content example_file) = [30, 40, 50]"
    by (simp add: example_file_def)
  note t = read_offset_discarded [OF h, of "Some (read_option 4)", unfolded Let_def]
  have other: "workerResponseHandler (run [ReadFile ''/docs'' ''a.bin'' (Some (read_option 2)),
        ReadFile [] ''a.bin'' (Some (read_option 4))] ?s) ''/docs/a.bin_read'' = Some [0]"
    using t [THEN conjunct2, THEN conjunct2, THEN conjunct2, THEN conjunct1, rule_format,
        of "[]" "''a.bin''" "Some (read_option 4)"]
    by (simp add: n)
  from t other show ?thesis
    by (auto simp add: n d)
qed

subsection \<open>Contention of truncations and writes\<close>

lemma exclusive_posted:
  assumes e: "call_of e = Some (wd, f, operation)"
    and ex: "exclusive operation"
    and free: "workerResponseHandler s (request_id wd f operation) = None"
    and fl: "files s (file_path wd f) = Some fl"
    and po: "postable e"
  shows "run [e, Resume (nextPromise s)] s =
     s\<lparr>nextPromise := Suc (nextPromise s),
       workerResponseHandler := (workerResponseHandler s)
         (request_id wd f operation \<mapsto> [nextPromise s]),
       awaiting := (awaiting s)(nextPromise s := None),
       idleWorkers := butlast (idleWorkers s),
       nextWorker := (if fst (pop (idleWorkers s)) = None then Suc (nextWorker s)
                      else nextWorker s),
       activeWorkers := activeWorkers s @ [picked_worker s],
       job := (job s)(picked_worker s \<mapsto> command_of e),
       posted := posted s @ [(picked_worker s, command_of e)]\<rparr>"
proof -
  let ?i = "request_id wd f operation"
  let ?c = "nextPromise s"
  define s1 where "s1 = step e s"
  define s2 where "s2 = step (Resume ?c) s1"
  have run: "run [e, Resume ?c] s = s2"
    by (simp add: s1_def s2_def)
  have 1: "s1 = s\<lparr>nextPromise := Suc ?c, awaiting := (awaiting s)(?c \<mapsto> suspended_of e)\<rparr>"
    unfolding s1_def using e ex free by (rule exclusive_free)
  have a1: "awaiting s1 ?c = Some (suspended_of e)" and f1: "files s1 (file_path wd f) = Some fl"
    by (simp_all add: 1 fl)
  have 2: "s2 = (started (command_of e) (s1\<lparr>awaiting := (awaiting s1)(?c := None)\<rparr>))
       \<lparr>workerResponseHandler := (workerResponseHandler s1)(?i \<mapsto> [?c])\<rparr>"
    unfolding s2_def using e ex a1 f1 po by (rule resume_exclusive)
  show ?thesis
    unfolding run 2
    by (rule sys.equality; simp add: 1)
qed

lemma exclusive_unposted:
  assumes e: "call_of e = Some (wd, f, operation)"
    and ex: "exclusive operation"
    and free: "workerResponseHandler s (request_id wd f operation) = None"
    and fl: "files s (file_path wd f) = Some fl"
    and po: "\<not> postable e"
  shows "run [e, Resume (nextPromise s)] s =
     s\<lparr>nextPromise := Suc (nextPromise s),
       awaiting := (awaiting s)(nextPromise s := None),
       idleWorkers := butlast (idleWorkers s),
       nextWorker := (if fst (pop (idleWorkers s)) = None then Suc (nextWorker s)
                      else nextWorker s),
       activeWorkers := activeWorkers s @ [picked_worker s],
       delivered := delivered s @ [(nextPromise s, Rejected TypeError)]\<rparr>"
proof -
  let ?c = "nextPromise s"
  define s1 where "s1 = step e s"
  define s2 where "s2 = step (Resume ?c) s1"
  have run: "run [e, Resume ?c] s = s2"
    by (simp add: s1_def s2_def)
  have 1: "s1 = s\<lparr>nextPromise := Suc ?c, awaiting := (awaiting s)(?c \<mapsto> suspended_of e)\<rparr>"
    unfolding s1_def using e ex free by (rule exclusive_free)
  have a1: "awaiting s1 ?c = Some (suspended_of e)" and f1: "files s1 (file_path wd f) = Some fl"
    by (simp_all add: 1 fl)
  have 2: "s2 = s1\<lparr>awaiting := (awaiting s1)(?c := None),
       idleWorkers := butlast (idleWorkers s1),
       nextWorker := (if fst (pop (idleWorkers s1)) = None then Suc (nextWorker s1)
                      else nextWorker s1),
       activeWorkers := activeWorkers s1 @ [picked_worker s1],
       delivered := delivered s1 @ [(?c, Rejected TypeError)]\<rparr>"
    unfolding s2_def using e ex a1 f1 po by (rule resume_untransferable)
  show ?thesis
    unfolding run 2
    by (rule sys.equality; simp add: 1)
qed

lemma exclusive_answered:
  assumes e: "call_of e = Some (wd, f, operation)"
    and ex: "exclusive operation"
    and w: "workerResponseHandler t (request_id wd f operation) = Some cb"
    and j: "job t w = Some (command_of e)"
    and fl: "files t (file_path wd f) = Some fl"
    and r: "posts (trace (onmessage env (command_of e) fl)) = [r]"
  shows "step (WorkerDone w env) t =
     t\<lparr>workerResponseHandler := (workerResponseHandler t)(request_id wd f operation := None),
       idleWorkers := idleWorkers t @ [Some w],
       activeWorkers := remove1 w (activeWorkers t),
       job := (job t)(w := None),
       delivered := delivered t @
         map (\<lambda>c. (c, case r_error r of Some e \<Rightarrow> Rejected e
                        | None \<Rightarrow> Resolved (r_result r))) cb,
       files := (files t)(file_path wd f \<mapsto> w_file (onmessage env (command_of e) fl)),
       timeout := Some (now t + 10000)\<rparr>"
proof -
  let ?i = "request_id wd f operation"
  let ?m = "command_of e"
  from onmessage_posts [of ?m env fl] exclusive_command(2) [OF e ex] r
  have rid: "r_id r = m_id ?m"
    by auto
  have key: "key_of (r_id r) = ?i"
    using e by (simp add: rid command_of_id key_of_def)
  have w': "workerResponseHandler t (key_of (r_id r)) = Some cb"
    using w by (simp only: key)
  have 3: "step (WorkerDone w env) t =
     clearIdleWorkers (completeWork w
       (t\<lparr>job := (job t)(w := None),
          files := (files t)(file_path wd f \<mapsto> w_file (onmessage env ?m fl)),
          delivered := delivered t @ fan_out r cb,
          workerResponseHandler := (workerResponseHandler t)(key_of (r_id r) := None)\<rparr>))"
    using j command_of_fileHandle [OF e] fl r w' by (rule worker_done_answered)
  show ?thesis
    unfolding 3 key
    by (rule sys.equality;
        simp add: clearIdleWorkers_def completeWork_def fan_out_map outcome_of_def)
qed

lemma busy_scenario:
  assumes e1: "call_of e1 = Some (wd, f, operation)"
    and e2: "call_of e2 = Some (wd, f, operation)"
    and e3: "call_of e3 = Some (wd, f, operation)"
    and ex: "exclusive operation"
    and free: "workerResponseHandler s (request_id wd f operation) = None"
    and fl: "files s (file_path wd f) = Some fl"
    and po: "postable e1"
  shows "\<exists>r1. posts (trace (onmessage env1 (command_of e1) fl)) = [r1] \<and>
      run [e1, Resume (nextPromise s), e2] s =
        s\<lparr>nextPromise := Suc (Suc (nextPromise s)),
          workerResponseHandler := (workerResponseHandler s)
            (request_id wd f operation \<mapsto> [nextPromise s]),
          awaiting := (awaiting s)(nextPromise s := None),
          idleWorkers := butlast (idleWorkers s),
          nextWorker := (if fst (pop (idleWorkers s)) = None then Suc (nextWorker s)
                         else nextWorker s),
          activeWorkers := activeWorkers s @ [picked_worker s],
          job := (job s)(picked_worker s \<mapsto> command_of e1),
          posted := posted s @ [(picked_worker s, command_of e1)],
          delivered := delivered s @ [(Suc (nextPromise s), Rejected (busy operation))]\<rparr> \<and>
      run [e1, Resume (nextPromise s), e2, WorkerDone (picked_worker s) env1] s =
        s\<lparr>nextPromise := Suc (Suc (nextPromise s)),
          awaiting := (awaiting s)(nextPromise s := None),
          idleWorkers := butlast (idleWorkers s) @ [Some (picked_worker s)],
          nextWorker := (if fst (pop (idleWorkers s)) = None then Suc (nextWorker s)
                         else nextWorker s),
          activeWorkers := remove1 (picked_worker s) (activeWorkers s @ [picked_worker s]),
          job := (job s)(picked_worker s := None),
          posted := posted s @ [(picked_worker s, command_of e1)],
          delivered := delivered s @
            [(Suc (nextPromise s), Rejected (busy operation)),
             (nextPromise s, case r_error r1 of Some e \<Rightarrow> Rejected e
                             | None \<Rightarrow> Resolved (r_result r1))],
          files := (files s)(file_path wd f \<mapsto> w_file (onmessage env1 (command_of e1) fl)),
          timeout := Some (now s + 10000)\<rparr> \<and>
      (postable e3 \<longrightarrow>
        (\<exists>r3. posts (trace (onmessage env3 (command_of e3)
                 (w_file (onmessage env1 (command_of e1) fl)))) = [r3] \<and>
          run [e1, Resume (nextPromise s), e2, WorkerDone (picked_worker s) env1,
               e3, Resume (Suc (Suc (nextPromise s))), WorkerDone (picked_worker s) env3] s =
            s\<lparr>nextPromise := Suc (Suc (Suc (nextPromise s))),
              awaiting := (awaiting s)(nextPromise s := None, Suc (Suc (nextPromise s)) := None),
              idleWorkers := butlast (idleWorkers s) @ [Some (picked_worker s)],
              nextWorker := (if fst (pop (idleWorkers s)) = None then Suc (nextWorker s)
                             else nextWorker s),
              activeWorkers := remove1 (picked_worker s)
                (remove1 (picked_worker s) (activeWorkers s @ [picked_worker s]) @
                 [picked_worker s]),
              job := (job s)(picked_worker s := None),
              posted := posted s @ [(picked_worker s, command_of e1),
                                    (picked_worker s, command_of e3)],
              delivered := delivered s @
                [(Suc (nextPromise s), Rejected (busy operation)),
                 (nextPromise s, case r_error r1 of Some e \<Rightarrow> Rejected e
                                 | None \<Rightarrow> Resolved (r_result r1)),
                 (Suc (Suc (nextPromise s)), case r_error r3 of Some e \<Rightarrow> Rejected e
                                             | None \<Rightarrow> Resolved (r_result r3))],
              files := (files s)(file_path wd f \<mapsto>
                w_file (onmessage env3 (command_of e3)
                  (w_file (onmessage env1 (command_of e1) fl)))),
              timeout := Some (now s + 10000)\<rparr>)) \<and>
      (\<not> postable e3 \<longrightarrow>
          run [e1, Resume (nextPromise s), e2, WorkerDone (picked_worker s) env1,
               e3, Resume (Suc (Suc (nextPromise s)))] s =
            s\<lparr>nextPromise := Suc (Suc (Suc (nextPromise s))),
              awaiting := (awaiting s)(nextPromise s := None, Suc (Suc (nextPromise s)) := None),
              idleWorkers := butlast (idleWorkers s),
              nextWorker := (if fst (pop (idleWorkers s)) = None then Suc (nextWorker s)
                             else nextWorker s),
              activeWorkers := remove1 (picked_worker s) (activeWorkers s @ [picked_worker s]) @
                 [picked_worker s],
              job := (job s)(picked_worker s := None),
              posted := posted s @ [(picked_worker s, command_of e1)],
              delivered := delivered s @
                [(Suc (nextPromise s), Rejected (busy operation)),
                 (nextPromise s, case r_error r1 of Some e \<Rightarrow> Rejected e
                                 | None \<Rightarrow> Resolved (r_result r1)),
                 (Suc (Suc (nextPromise s)), Rejected TypeError)],
              files := (files s)(file_path wd f \<mapsto> w_file (onmessage env1 (command_of e1) fl)),
              timeout := Some (now s + 10000)\<rparr>)"
proof -
  let ?i = "request_id wd f operation"
  let ?p = "file_path wd f"
  let ?c = "nextPromise s"
  let ?w = "picked_worker s"
  let ?m1 = "command_of e1"
  let ?m3 = "command_of e3"
  let ?fl1 = "w_file (onmessage env1 ?m1 fl)"
  let ?fl3 = "w_file (onmessage env3 ?m3 ?fl1)"
  let ?out = "\<lambda>r. case r_error r of Some e \<Rightarrow> Rejected e | None \<Rightarrow> Resolved (r_result r)"
  let ?nw = "if fst (pop (idleWorkers s)) = None then Suc (nextWorker s) else nextWorker s"
  define s2 where "s2 = run [e1, Resume ?c] s"
  define s3 where "s3 = step e2 s2"
  define s4 where "s4 = step (WorkerDone ?w env1) s3"
  define s6 where "s6 = run [e3, Resume (nextPromise s4)] s4"
  define s7 where "s7 = step (WorkerDone (picked_worker s4) env3) s6"
  from onmessage_posts [of ?m1 env1 fl] exclusive_command(2) [OF e1 ex]
  obtain r1 where r1: "posts (trace (onmessage env1 ?m1 fl)) = [r1]"
    by auto
  have 2: "s2 = s\<lparr>nextPromise := Suc ?c,
       workerResponseHandler := (workerResponseHandler s)(?i \<mapsto> [?c]),
       awaiting := (awaiting s)(?c := None),
       idleWorkers := butlast (idleWorkers s),
       nextWorker := ?nw,
       activeWorkers := activeWorkers s @ [?w],
       job := (job s)(?w \<mapsto> ?m1),
       posted := posted s @ [(?w, ?m1)]\<rparr>"
    unfolding s2_def using e1 ex free fl po by (rule exclusive_posted)
  have w2: "workerResponseHandler s2 ?i = Some [?c]"
    by (simp add: 2)
  have 3: "s3 = s2\<lparr>nextPromise := Suc (nextPromise s2),
       delivered := delivered s2 @ [(nextPromise s2, Rejected (busy operation))]\<rparr>"
    unfolding s3_def using e2 ex w2 by (rule exclusive_busy)
  have S3: "s3 = s\<lparr>nextPromise := Suc (Suc ?c),
          workerResponseHandler := (workerResponseHandler s)(?i \<mapsto> [?c]),
          awaiting := (awaiting s)(?c := None),
          idleWorkers := butlast (idleWorkers s),
          nextWorker := ?nw,
          activeWorkers := activeWorkers s @ [?w],
          job := (job s)(?w \<mapsto> ?m1),
          posted := posted s @ [(?w, ?m1)],
          delivered := delivered s @ [(Suc ?c, Rejected (busy operation))]\<rparr>"
    unfolding 3 by (rule sys.equality; simp add: 2)
  have b3: "workerResponseHandler s3 ?i = Some [?c]" "job s3 ?w = Some ?m1"
    "files s3 ?p = Some fl"
    by (simp_all add: S3 fl)
  have 4: "s4 = s3\<lparr>workerResponseHandler := (workerResponseHandler s3)(?i := None),
       idleWorkers := idleWorkers s3 @ [Some ?w],
       activeWorkers := remove1 ?w (activeWorkers s3),
       job := (job s3)(?w := None),
       delivered := delivered s3 @ map (\<lambda>c. (c, ?out r1)) [?c],
       files := (files s3)(?p \<mapsto> ?fl1),
       timeout := Some (now s3 + 10000)\<rparr>"
    unfolding s4_def using e1 ex b3 r1 by (rule exclusive_answered)
  have idem: "(workerResponseHandler s)(?i := None) = workerResponseHandler s"
    using free by (intro fun_upd_idem) simp
  have S4: "s4 = s\<lparr>nextPromise := Suc (Suc ?c),
          awaiting := (awaiting s)(?c := None),
          idleWorkers := butlast (idleWorkers s) @ [Some ?w],
          nextWorker := ?nw,
          activeWorkers := remove1 ?w (activeWorkers s @ [?w]),
          job := (job s)(?w := None),
          posted := posted s @ [(?w, ?m1)],
          delivered := delivered s @ [(Suc ?c, Rejected (busy operation)), (?c, ?out r1)],
          files := (files s)(?p \<mapsto> ?fl1),
          timeout := Some (now s + 10000)\<rparr>"
    unfolding 4 by (rule sys.equality; simp add: S3 idem)
  have c4: "workerResponseHandler s4 ?i = None" "files s4 ?p = Some ?fl1"
    "nextPromise s4 = Suc (Suc ?c)"
    by (simp_all add: S4 free)
  have p4: "picked_worker s4 = ?w"
    by (rule picked_last [of _ "butlast (idleWorkers s)"]) (simp add: S4)
  have i4: "butlast (idleWorkers s4) = butlast (idleWorkers s)"
    "fst (pop (idleWorkers s4)) = Some ?w"
    by (simp_all add: S4 pop_def)
  have run3: "run [e1, Resume ?c, e2] s = s3"
    by (simp add: s3_def s2_def)
  have run4: "run [e1, Resume ?c, e2, WorkerDone ?w env1] s = s4"
    by (simp add: s4_def s3_def s2_def)
  have run6: "run [e1, Resume ?c, e2, WorkerDone ?w env1, e3, Resume (Suc (Suc ?c))] s = s6"
    unfolding s6_def c4(3) by (simp add: s4_def s3_def s2_def)
  have run7: "run [e1, Resume ?c, e2, WorkerDone ?w env1, e3, Resume (Suc (Suc ?c)),
        WorkerDone ?w env3] s = s7"
    unfolding s7_def s6_def c4(3) p4 by (simp add: s4_def s3_def s2_def)
  have good: "\<exists>r3. posts (trace (onmessage env3 ?m3 ?fl1)) = [r3] \<and>
       s7 = s\<lparr>nextPromise := Suc (Suc (Suc ?c)),
              awaiting := (awaiting s)(?c := None, Suc (Suc ?c) := None),
              idleWorkers := butlast (idleWorkers s) @ [Some ?w],
              nextWorker := ?nw,
              activeWorkers := remove1 ?w (remove1 ?w (activeWorkers s @ [?w]) @ [?w]),
              job := (job s)(?w := None),
              posted := posted s @ [(?w, ?m1), (?w, ?m3)],
              delivered := delivered s @
                [(Suc ?c, Rejected (busy operation)), (?c, ?out r1), (Suc (Suc ?c), ?out r3)],
              files := (files s)(?p \<mapsto> ?fl3),
              timeout := Some (now s + 10000)\<rparr>"
    if po3: "postable e3"
  proof -
    from onmessage_posts [of ?m3 env3 ?fl1] exclusive_command(2) [OF e3 ex]
    obtain r3 where r3: "posts (trace (onmessage env3 ?m3 ?fl1)) = [r3]"
      by auto
    have 6: "s6 = s4\<lparr>nextPromise := Suc (nextPromise s4),
       workerResponseHandler := (workerResponseHandler s4)(?i \<mapsto> [nextPromise s4]),
       awaiting := (awaiting s4)(nextPromise s4 := None),
       idleWorkers := butlast (idleWorkers s4),
       nextWorker := (if fst (pop (idleWorkers s4)) = None then Suc (nextWorker s4)
                      else nextWorker s4),
       activeWorkers := activeWorkers s4 @ [picked_worker s4],
       job := (job s4)(picked_worker s4 \<mapsto> ?m3),
       posted := posted s4 @ [(picked_worker s4, ?m3)]\<rparr>"
      unfolding s6_def using e3 ex c4(1) c4(2) po3 by (rule exclusive_posted)
    have d6: "workerResponseHandler s6 ?i = Some [Suc (Suc ?c)]"
      "job s6 (picked_worker s4) = Some ?m3" "files s6 ?p = Some ?fl1"
      by (simp_all add: 6 c4)
    have 7: "s7 = s6\<lparr>workerResponseHandler := (workerResponseHandler s6)(?i := None),
       idleWorkers := idleWorkers s6 @ [Some (picked_worker s4)],
       activeWorkers := remove1 (picked_worker s4) (activeWorkers s6),
       job := (job s6)(picked_worker s4 := None),
       delivered := delivered s6 @ map (\<lambda>c. (c, ?out r3)) [Suc (Suc ?c)],
       files := (files s6)(?p \<mapsto> ?fl3),
       timeout := Some (now s6 + 10000)\<rparr>"
      unfolding s7_def using e3 ex d6 r3 by (rule exclusive_answered)
    have "s7 = s\<lparr>nextPromise := Suc (Suc (Suc ?c)),
              awaiting := (awaiting s)(?c := None, Suc (Suc ?c) := None),
              idleWorkers := butlast (idleWorkers s) @ [Some ?w],
              nextWorker := ?nw,
              activeWorkers := remove1 ?w (remove1 ?w (activeWorkers s @ [?w]) @ [?w]),
              job := (job s)(?w := None),
              posted := posted s @ [(?w, ?m1), (?w, ?m3)],
              delivered := delivered s @
                [(Suc ?c, Rejected (busy operation)), (?c, ?out r1), (Suc (Suc ?c), ?out r3)],
              files := (files s)(?p \<mapsto> ?fl3),
              timeout := Some (now s + 10000)\<rparr>"
      unfolding 7 6 p4 i4 c4(3)
      by (rule sys.equality; simp add: S4 idem)
    with r3 show ?thesis
      by blast
  qed
  have bad: "s6 = s\<lparr>nextPromise := Suc (Suc (Suc ?c)),
              awaiting := (awaiting s)(?c := None, Suc (Suc ?c) := None),
              idleWorkers := butlast (idleWorkers s),
              nextWorker := ?nw,
              activeWorkers := remove1 ?w (activeWorkers s @ [?w]) @ [?w],
              job := (job s)(?w := None),
              posted := posted s @ [(?w, ?m1)],
              delivered := delivered s @
                [(Suc ?c, Rejected (busy operation)), (?c, ?out r1),
                 (Suc (Suc ?c), Rejected TypeError)],
              files := (files s)(?p \<mapsto> ?fl1),
              timeout := Some (now s + 10000)\<rparr>"
    if po3: "\<not> postable e3"
  proof -
    have 6: "s6 = s4\<lparr>nextPromise := Suc (nextPromise s4),
       awaiting := (awaiting s4)(nextPromise s4 := None),
       idleWorkers := butlast (idleWorkers s4),
       nextWorker := (if fst (pop (idleWorkers s4)) = None then Suc (nextWorker s4)
                      else nextWorker s4),
       activeWorkers := activeWorkers s4 @ [picked_worker s4],
       delivered := delivered s4 @ [(nextPromise s4, Rejected TypeError)]\<rparr>"
      unfolding s6_def using e3 ex c4(1) c4(2) po3 by (rule exclusive_unposted)
    show ?thesis
      unfolding 6 p4 i4 c4(3)
      by (rule sys.equality; simp add: S4)
  qed
  show ?thesis
    unfolding run3 run4 run6 run7
    apply (rule exI [of _ r1])
    apply (intro conjI impI r1 S3 S4)
     apply (erule good)
    apply (erule bad)
    done
qed

text \<open>
  Claim C2, as the code has it. The rejection is decided by the table alone. A
  \<^verbatim>\<open>truncateFile\<close> (or \<^verbatim>\<open>writeFile\<close>) call is rejected at once with the busy error
  exactly when the table holds an entry under the call's own id,
  \<^verbatim>\<open>${workingDirectory}/${fileName}_truncate\<close> (or \<^verbatim>\<open>_write\<close>), at the moment of the call:
  then the state changes in nothing but the rejected promise; otherwise the call suspends
  at its \<^verbatim>\<open>await\<close>, whatever else is in flight. From a table without the entry, a first
  call for an existing file whose transfer list \<^verbatim>\<open>postMessage\<close> accepts stores the
  entry when it resumes and posts its command; a second call of the same operation for the
  same file made then is rejected, no command is posted for it and the first call's entry
  stays. The worker's response settles the first call and removes the entry. A third call
  made after that is not rejected: when \<^verbatim>\<open>postMessage\<close> accepts its transfer list it
  posts a command of its own and is settled by that command's response; when not (as with
  \<^verbatim>\<open>transfer: true\<close>) its promise is rejected with the \<^verbatim>\<open>TypeError\<close>, no command is
  posted, no entry is stored and the worker stays in the active array. The whole state is
  given at each point.
\<close>

theorem busy_while_in_flight:
  assumes "call_of e1 = Some (wd, f, operation)"
    and "call_of e2 = Some (wd, f, operation)"
    and "call_of e3 = Some (wd, f, operation)"
    and "operation = ''truncate'' \<or> operation = ''write''"
    and "workerResponseHandler s (wd @ ''/'' @ f @ ''_'' @ operation) = None"
    and "files s (wd @ ''/'' @ f) = Some fl"
    and "postable e1"
  shows
    "let key = wd @ ''/'' @ f @ ''_'' @ operation;
         c = nextPromise s;
         w = picked_worker s;
         m1 = \<lparr>m_id = Some key, m_command = Some operation, m_data = command_data e1,
               m_option = command_option e1, m_fileHandle = Some (wd @ ''/'' @ f)\<rparr>;
         m3 = \<lparr>m_id = Some key, m_command = Some operation, m_data = command_data e3,
               m_option = command_option e3, m_fileHandle = Some (wd @ ''/'' @ f)\<rparr>;
         is_busy = Rejected (if operation = ''truncate''
                             then Error ''Truncate fail: File is writing.''
                             else Error ''Write fail: File is writing.'');
         settled = (\<lambda>r. case r_error r of Some e \<Rightarrow> Rejected e
                         | None \<Rightarrow> Resolved (r_result r));
         workers = (if fst (pop (idleWorkers s)) = None then Suc (nextWorker s)
                    else nextWorker s)
     in (\<forall>t cb. workerResponseHandler t key = Some cb \<longrightarrow>
           step e2 t = t\<lparr>nextPromise := Suc (nextPromise t),
                          delivered := delivered t @ [(nextPromise t, is_busy)]\<rparr>) \<and>
        (\<forall>t. workerResponseHandler t key = None \<longrightarrow>
           step e2 t = t\<lparr>nextPromise := Suc (nextPromise t),
                          awaiting := (awaiting t)(nextPromise t \<mapsto> suspended_of e2)\<rparr>) \<and>
        (\<exists>r1. posts (trace (onmessage env1 m1 fl)) = [r1] \<and>
           run [e1, Resume c, e2] s =
             s\<lparr>nextPromise := Suc (Suc c),
               workerResponseHandler := (workerResponseHandler s)(key \<mapsto> [c]),
               awaiting := (awaiting s)(c := None),
               idleWorkers := butlast (idleWorkers s),
               nextWorker := workers,
               activeWorkers := activeWorkers s @ [w],
               job := (job s)(w \<mapsto> m1),
               posted := posted s @ [(w, m1)],
               delivered := delivered s @ [(Suc c, is_busy)]\<rparr> \<and>
           run [e1, Resume c, e2, WorkerDone w env1] s =
             s\<lparr>nextPromise := Suc (Suc c),
               awaiting := (awaiting s)(c := None),
               idleWorkers := butlast (idleWorkers s) @ [Some w],
               nextWorker := workers,
               activeWorkers := remove1 w (activeWorkers s @ [w]),
               job := (job s)(w := None),
               posted := posted s @ [(w, m1)],
               delivered := delivered s @ [(Suc c, is_busy), (c, settled r1)],
               files := (files s)(wd @ ''/'' @ f \<mapsto> w_file (onmessage env1 m1 fl)),
               timeout := Some (now s + 10000)\<rparr> \<and>
           (postable e3 \<longrightarrow>
             (\<exists>r3. posts (trace (onmessage env3 m3 (w_file (onmessage env1 m1 fl)))) = [r3] \<and>
                run [e1, Resume c, e2, WorkerDone w env1, e3, Resume (Suc (Suc c)),
                     WorkerDone w env3] s =
                  s\<lparr>nextPromise := Suc (Suc (Suc c)),
                    awaiting := (awaiting s)(c := None, Suc (Suc c) := None),
                    idleWorkers := butlast (idleWorkers s) @ [Some w],
                    nextWorker := workers,
                    activeWorkers := remove1 w (remove1 w (activeWorkers s @ [w]) @ [w]),
                    job := (job s)(w := None),
                    posted := posted s @ [(w, m1), (w, m3)],
                    delivered := delivered s @
                      [(Suc c, is_busy), (c, settled r1), (Suc (Suc c), settled r3)],
                    files := (files s)(wd @ ''/'' @ f \<mapsto>
                      w_file (onmessage env3 m3 (w_file (onmessage env1 m1 fl)))),
                    timeout := Some (now s + 10000)\<rparr>)) \<and>
           (\<not> postable e3 \<longrightarrow>
              run [e1, Resume c, e2, WorkerDone w env1, e3, Resume (Suc (Suc c))] s =
                s\<lparr>nextPromise := Suc (Suc (Suc c)),
                  awaiting := (awaiting s)(c := None, Suc (Suc c) := None),
                  idleWorkers := butlast (idleWorkers s),
                  nextWorker := workers,
                  activeWorkers := remove1 w (activeWorkers s @ [w]) @ [w],
                  job := (job s)(w := None),
                  posted := posted s @ [(w, m1)],
                  delivered := delivered s @
                    [(Suc c, is_busy), (c, settled r1), (Suc (Suc c), Rejected TypeError)],
                  files := (files s)(wd @ ''/'' @ f \<mapsto> w_file (onmessage env1 m1 fl)),
                  timeout := Some (now s + 10000)\<rparr>))"
proof -
  have ex: "exclusive operation"
    using assms(4) by (simp add: exclusive_def)
  have free: "workerResponseHandler s (request_id wd f operation) = None"
    and fl: "files s (file_path wd f) = Some fl"
    using assms(5,6) by (simp_all add: request_id_def file_path_def)
  note scenario = busy_scenario [OF assms(1,2,3) ex free fl assms(7), of env1 env3]
  have rejected: "\<forall>t cb. workerResponseHandler t (wd @ ''/'' @ f @ ''_'' @ operation) = Some cb \<longrightarrow>
      step e2 t = t\<lparr>nextPromise := Suc (nextPromise t),
        delivered := delivered t @
          [(nextPromise t, Rejected (if operation = ''truncate''
                                     then Error ''Truncate fail: File is writing.''
                                     else Error ''Write fail: File is writing.''))]\<rparr>"
  proof (intro allI impI)
    fix t :: sys and cb
    assume "workerResponseHandler t (wd @ ''/'' @ f @ ''_'' @ operation) = Some cb"
    then have "workerResponseHandler t (request_id wd f operation) = Some cb"
      by (simp add: request_id_def)
    from exclusive_busy [OF assms(2) ex this]
    show "step e2 t = t\<lparr>nextPromise := Suc (nextPromise t),
        delivered := delivered t @
          [(nextPromise t, Rejected (if operation = ''truncate''
                                     then Error ''Truncate fail: File is writing.''
                                     else Error ''Write fail: File is writing.''))]\<rparr>"
      by (simp only: busy_def)
  qed
  have suspends: "\<forall>t. workerResponseHandler t (wd @ ''/'' @ f @ ''_'' @ operation) = None \<longrightarrow>
      step e2 t = t\<lparr>nextPromise := Suc (nextPromise t),
        awaiting := (awaiting t)(nextPromise t \<mapsto> suspended_of e2)\<rparr>"
  proof (intro allI impI)
    fix t :: sys
    assume "workerResponseHandler t (wd @ ''/'' @ f @ ''_'' @ operation) = None"
    then have "workerResponseHandler t (request_id wd f operation) = None"
      by (simp add: request_id_def)
    from exclusive_free [OF assms(2) ex this]
    show "step e2 t = t\<lparr>nextPromise := Suc (nextPromise t),
        awaiting := (awaiting t)(nextPromise t \<mapsto> suspended_of e2)\<rparr>" .
  qed
  show ?thesis
    unfolding Let_def
    apply (intro conjI rejected suspends)
    using scenario
    apply (simp only: exclusive_command(1) [OF assms(1) ex] exclusive_command(1) [OF assms(3) ex]
        request_id_def file_path_def busy_def)
    done
qed

text \<open>
  Three writes to one file, the second while the first is at the worker, the third after
  the first has been answered: once with no option, once with \<^verbatim>\<open>transfer: true\<close>. Two
  truncations of one file, the second while the first is at the worker.
\<close>

theorem busy_while_in_flight_witness:
  "delivered (run (take 3 (three_writes None)) (init example_tree)) =
     [(1, Rejected (Error ''Write fail: File is writing.''))] \<and>
   posted (run (take 3 (three_writes None)) (init example_tree)) =
     [(0, \<lparr>m_id = Some ''/docs/a.bin_write'', m_command = Some ''write'',
           m_data = Some [1, 2], m_option = Some empty_option,
           m_fileHandle = Some ''/docs/a.bin''\<rparr>)] \<and>
   workerResponseHandler (run (take 3 (three_writes None)) (init example_tree))
     ''/docs/a.bin_write'' = Some [0] \<and>
   delivered (run (three_writes None) (init example_tree)) =
     [(1, Rejected (Error ''Write fail: File is writing.'')),
      (0, Resolved (Some (RNum 2))), (2, Resolved (Some (RNum 3)))] \<and>
   posted (run (three_writes None) (init example_tree)) =
     [(0, \<lparr>m_id = Some ''/docs/a.bin_write'', m_command = Some ''write'',
           m_data = Some [1, 2], m_option = Some empty_option,
           m_fileHandle = Some ''/docs/a.bin''\<rparr>),
      (0, \<lparr>m_id = Some ''/docs/a.bin_write'', m_command = Some ''write'',
           m_data = Some [7, 8, 9], m_option = Some empty_option,
           m_fileHandle = Some ''/docs/a.bin''\<rparr>)] \<and>
   workerResponseHandler (run (three_writes None) (init example_tree))
     ''/docs/a.bin_write'' = None \<and>
   delivered (run (take 6 (three_writes (Some transfer_true))) (init example_tree)) =
     [(1, Rejected (Error ''Write fail: File is writing.'')),
      (0, Resolved (Some (RNum 2))), (2, Rejected TypeError)] \<and>
   posted (run (take 6 (three_writes (Some transfer_true))) (init example_tree)) =
     [(0, \<lparr>m_id = Some ''/docs/a.bin_write'', m_command = Some ''write'',
           m_data = Some [1, 2], m_option = Some empty_option,
           m_fileHandle = Some ''/docs/a.bin''\<rparr>)] \<and>
   activeWorkers (run (take 6 (three_writes (Some transfer_true))) (init example_tree)) = [0] \<and>
   workerResponseHandler (run (take 6 (three_writes (Some transfer_true))) (init example_tree))
     ''/docs/a.bin_write'' = None \<and>
   delivered (run two_truncates (init example_tree)) =
     [(1, Rejected (Error ''Truncate fail: File is writing.''))] \<and>
   map fst (posted (run two_truncates (init example_tree))) = [0]"
proof -
  let ?s = "init example_tree"
  let ?e1 = "WriteFile ''/docs'' ''a.bin'' (Some [1, 2])
        (Some \<lparr>w_transfer = JBuffer [1, 2], w_rest = empty_option\<rparr>)"
  let ?e2 = "WriteFile ''/docs'' ''a.bin'' (Some [3]) None"
  let ?e3 = "WriteFile ''/docs'' ''a.bin'' (Some [7, 8, 9]) None"
  let ?e3' = "WriteFile ''/docs'' ''a.bin'' (Some [7, 8, 9]) (Some transfer_true)"
  let ?t1 = "TruncateFile ''/docs'' ''a.bin'' (truncate_option (JNum 2) JUndefined)"
  let ?t2 = "TruncateFile ''/docs'' ''a.bin'' (truncate_option (JNum 4) JUndefined)"
  let ?m1 = "\<lparr>m_id = Some ''/docs/a.bin_write'', m_command = Some ''write'',
           m_data = Some [1, 2], m_option = Some empty_option,
           m_fileHandle = Some ''/docs/a.bin''\<rparr>"
  let ?m3 = "\<lparr>m_id = Some ''/docs/a.bin_write'', m_command = Some ''write'',
           m_data = Some [7, 8, 9], m_option = Some empty_option,
           m_fileHandle = Some ''/docs/a.bin''\<rparr>"
  have h: "call_of ?e1 = Some (''/docs'', ''a.bin'', ''write'')"
    "call_of ?e2 = Some (''/docs'', ''a.bin'', ''write'')"
    "call_of ?e3 = Some (''/docs'', ''a.bin'', ''write'')"
    "''write'' = ''truncate'' \<or> ''write'' = ''write''"
    "workerResponseHandler ?s (''/docs'' @ ''/'' @ ''a.bin'' @ ''_'' @ ''write'') = None"
    "files ?s (''/docs'' @ ''/'' @ ''a.bin'') = Some example_file"
    "postable ?e1"
    by (simp_all add: init_def example_tree_def postable_def postMessage_throws_def)
  have h': "call_of ?e1 = Some (''/docs'', ''a.bin'', ''write'')"
    "call_of ?e2 = Some (''/docs'', ''a.bin'', ''write'')"
    "call_of ?e3' = Some (''/docs'', ''a.bin'', ''write'')"
    "''write'' = ''truncate'' \<or> ''write'' = ''write''"
    "workerResponseHandler ?s (''/docs'' @ ''/'' @ ''a.bin'' @ ''_'' @ ''write'') = None"
    "files ?s (''/docs'' @ ''/'' @ ''a.bin'') = Some example_file"
    "postable ?e1"
    by (simp_all add: init_def example_tree_def postable_def postMessage_throws_def)
  have g: "call_of ?t1 = Some (''/docs'', ''a.bin'', ''truncate'')"
    "call_of ?t2 = Some (''/docs'', ''a.bin'', ''truncate'')"
    "call_of ?t2 = Some (''/docs'', ''a.bin'', ''truncate'')"
    "''truncate'' = ''truncate'' \<or> ''truncate'' = ''write''"
    "workerResponseHandler ?s (''/docs'' @ ''/'' @ ''a.bin'' @ ''_'' @ ''truncate'') = None"
    "files ?s (''/docs'' @ ''/'' @ ''a.bin'') = Some example_file"
    "postable ?t1"
    by (simp_all add: init_def example_tree_def postable_def postMessage_throws_def)
  have n: "nextPromise ?s = 0" "picked_worker ?s = 0" "posted ?s = []" "delivered ?s = []"
    "workerResponseHandler ?s = (\<lambda>k. None)" "activeWorkers ?s = []"
    by (simp_all add: init_def picked_worker_def pop_def)
  have po: "postable ?e3" "\<not> postable ?e3'"
    by (simp_all add: postable_def postMessage_throws_def transfer_true_def)
  have p1: "posts (trace (onmessage [] ?m1 example_file)) =
      [\<lparr>r_id = Some ''/docs/a.bin_write'', r_result = Some (RNum 2), r_error = None\<rparr>]"
    by (simp add: worker_defs example_file_def)
  have p3: "posts (trace (onmessage [] ?m3 fl)) =
      [\<lparr>r_id = Some ''/docs/a.bin_write'', r_result = Some (RNum 3), r_error = None\<rparr>]" for fl
    by (simp add: worker_defs)
  have two: "Suc (Suc 0) = 2"
    by simp
  have l: "take 3 (three_writes None) = [?e1, Resume 0, ?e2]"
    "three_writes None = [?e1, Resume 0, ?e2, WorkerDone 0 [], ?e3, Resume 2, WorkerDone 0 []]"
    "take 6 (three_writes (Some transfer_true)) =
       [?e1, Resume 0, ?e2, WorkerDone 0 [], ?e3', Resume 2]"
    "two_truncates = [?t1, Resume 0, ?t2]"
    by (simp_all add: three_writes_def two_truncates_def)
  have a: "delivered (run (take 3 (three_writes None)) ?s) =
       [(1, Rejected (Error ''Write fail: File is writing.''))] \<and>
     posted (run (take 3 (three_writes None)) ?s) = [(0, ?m1)] \<and>
     workerResponseHandler (run (take 3 (three_writes None)) ?s) ''/docs/a.bin_write'' = Some [0] \<and>
     delivered (run (three_writes None) ?s) =
       [(1, Rejected (Error ''Write fail: File is writing.'')),
        (0, Resolved (Some (RNum 2))), (2, Resolved (Some (RNum 3)))] \<and>
     posted (run (three_writes None) ?s) = [(0, ?m1), (0, ?m3)] \<and>
     workerResponseHandler (run (three_writes None) ?s) ''/docs/a.bin_write'' = None"
    using busy_while_in_flight [OF h, of "[]" "[]"]
    unfolding l
    by (auto simp add: Let_def n po p1 p3 two simp del: run.simps)
  have b: "delivered (run (take 6 (three_writes (Some transfer_true))) ?s) =
       [(1, Rejected (Error ''Write fail: File is writing.'')),
        (0, Resolved (Some (RNum 2))), (2, Rejected TypeError)] \<and>
     posted (run (take 6 (three_writes (Some transfer_true))) ?s) = [(0, ?m1)] \<and>
     activeWorkers (run (take 6 (three_writes (Some transfer_true))) ?s) = [0] \<and>
     workerResponseHandler (run (take 6 (three_writes (Some transfer_true))) ?s)
       ''/docs/a.bin_write'' = None"
    using busy_while_in_flight [OF h', of "[]" "[]"]
    unfolding l
    by (auto simp add: Let_def n po p1 two simp del: run.simps)
  have c: "delivered (run two_truncates ?s) =
       [(1, Rejected (Error ''Truncate fail: File is writing.''))] \<and>
     map fst (posted (run two_truncates ?s)) = [0]"
    using busy_while_in_flight [OF g, of "[]" "[]"]
    unfolding l
    by (auto simp add: Let_def n two simp del: run.simps)
  from a b c show ?thesis
    by simp
qed

text \<open>
  Counterexample for C2 as stated: a write issued while a truncate of the same file is at
  its worker is not rejected; it is posted to a second worker while the truncate's entry
  is still in the table.
\<close>

theorem write_during_truncate_counterexample:
  "delivered (run write_during_truncate (init example_files)) = [] \<and>
   map fst (posted (run write_during_truncate (init example_files))) = [0, 1] \<and>
   map (m_command \<circ> snd) (posted (run write_during_truncate (init example_files))) =
     [Some ''truncate'', Some ''write''] \<and>
   workerResponseHandler (run write_during_truncate (init example_files)) ''/a.bin_truncate'' = Some [0]"
  by (simp add: write_during_truncate_def system_defs)

subsection \<open>Check and registration\<close>

text \<open>
  Claim C4 fails on the code. Two \<^verbatim>\<open>truncateFile\<close> calls for one file made one after
  the other both find the table without an entry, because the first stores its entry only
  after its \<^verbatim>\<open>await\<close>. Both post a command, each to a worker of its own; the second
  call's entry replaces the first's. The first response then settles the second caller,
  the first caller is never settled, and the second response finds no entry, so that its
  worker stays in the active array.
\<close>

theorem concurrent_truncates_both_dispatched:
  "delivered (run (take 4 concurrent_truncates) (init example_files)) = [] \<and>
   map fst (posted (run (take 4 concurrent_truncates) (init example_files))) = [0, 1] \<and>
   map (m_command \<circ> snd) (posted (run (take 4 concurrent_truncates) (init example_files))) =
     [Some ''truncate'', Some ''truncate''] \<and>
   workerResponseHandler (run (take 4 concurrent_truncates) (init example_files)) ''/a.bin_truncate'' =
     Some [1] \<and>
   delivered (run concurrent_truncates (init example_files)) = [(1, Resolved (Some (RNum 2)))] \<and>
   activeWorkers (run concurrent_truncates (init example_files)) = [1] \<and>
   idleWorkers (run concurrent_truncates (init example_files)) = [Some 0]"
  by (simp add: concurrent_truncates_def system_defs worker_defs)

subsection \<open>Reclamation of idle workers\<close>

text \<open>
  Claim C6 fails on the code. One worker is created and answers; nine seconds later a
  second request takes it from the idle array, and the timer of the first completion
  fires while it works: \<^verbatim>\<open>idleWorkers.length = 1\<close> turns the empty array into one
  empty slot. The worker completes and is pushed behind the slot; when the timer fires
  again the loop from index 1 terminates this worker, the only one there is, and the idle
  array is left holding the empty slot and no worker.
\<close>

theorem reclaim_terminates_only_worker:
  "nextWorker (run reuse_then_reclaim (init example_files)) = 1 \<and>
   idleWorkers (run (take 8 reuse_then_reclaim) (init example_files)) = [None] \<and>
   idleWorkers (run (take 9 reuse_then_reclaim) (init example_files)) = [None, Some 0] \<and>
   terminated (run reuse_then_reclaim (init example_files)) = [0] \<and>
   idleWorkers (run reuse_then_reclaim (init example_files)) = [None] \<and>
   activeWorkers (run reuse_then_reclaim (init example_files)) = []"
  by (simp add: reuse_then_reclaim_def system_defs worker_defs)

text \<open>
  Where no empty slot has arisen the timer does what the comments in the source say: it
  terminates every idle worker but the first and keeps the first. A burst of three
  requests shows it: the three workers stay idle until 10000 ms after the last completion.
\<close>

lemma terminate_loop_all:
  "terminate_loop (map Some ws) t = (True, t @ ws)"
  by (induction ws arbitrary: t) simp_all

lemma timer_callback_keeps_first:
  "idleWorkers s = Some w # map Some ws \<Longrightarrow>
   timer_callback s = s\<lparr>terminated := terminated s @ ws, idleWorkers := [Some w]\<rparr>"
  by (simp add: timer_callback_def terminate_loop_all set_length_1_def)

lemma burst_then_reclaim:
  "idleWorkers (run (take 9 burst_of_three) (init example_files)) = [Some 0, Some 1, Some 2] \<and>
   idleWorkers (run burst_of_three (init example_files)) = [Some 0, Some 1, Some 2] \<and>
   idleWorkers (run (burst_of_three @ [Elapse 1, TimerFires]) (init example_files)) = [Some 0] \<and>
   terminated (run (burst_of_three @ [Elapse 1, TimerFires]) (init example_files)) = [1, 2]"
  by (simp add: burst_of_three_def system_defs worker_defs)

subsection \<open>A transfer list that cannot be posted\<close>

text \<open>
  \<^verbatim>\<open>writeFile\<close> with \<^verbatim>\<open>transfer: true\<close> passes \<^verbatim>\<open>[true]\<close> to \<^verbatim>\<open>postMessage\<close>, which
  throws: the promise is rejected, nothing is posted, no entry is stored, and the worker,
  pushed on the active array before the call, stays there.
\<close>

lemma write_with_transfer_true:
  "delivered (run [WriteFile ''/docs'' ''a.bin'' (Some [1, 2]) (Some transfer_true), Resume 0]
      (init example_tree)) = [(0, Rejected TypeError)] \<and>
   posted (run [WriteFile ''/docs'' ''a.bin'' (Some [1, 2]) (Some transfer_true), Resume 0]
      (init example_tree)) = [] \<and>
   activeWorkers (run [WriteFile ''/docs'' ''a.bin'' (Some [1, 2]) (Some transfer_true), Resume 0]
      (init example_tree)) = [0] \<and>
   idleWorkers (run [WriteFile ''/docs'' ''a.bin'' (Some [1, 2]) (Some transfer_true), Resume 0]
      (init example_tree)) = [] \<and>
   workerResponseHandler (run [WriteFile ''/docs'' ''a.bin'' (Some [1, 2]) (Some transfer_true),
      Resume 0] (init example_tree)) ''/docs/a.bin_write'' = None"
  by (simp add: system_defs example_tree_def transfer_true_def)

end
